theory Spec2Isabelle
  imports Complex_Main "HOL-Library.AList"
begin

section \<open>Data model of the game engine\<close>

text \<open>
  The engine of \<^verbatim>\<open>lib/game-engine.ts\<close> is embedded function by function. A JavaScript
  \<^verbatim>\<open>number\<close> is modelled as a real number: rounding, NaN and the infinities of IEEE
  doubles are outside the model. \<^verbatim>\<open>Math.random()\<close> is an oracle \<open>rnd\<close>, a sequence of
  reals; the engine state counts the draws made so far in \<open>rng\<close>, so the n-th call of
  \<^verbatim>\<open>Math.random()\<close> in a run returns \<open>rnd n\<close>. The canvas is reduced to its width and
  height. Drawing is not modelled.
\<close>

record Vector2D =
  vec_x :: real
  vec_y :: real

abbreviation vec :: "real \<Rightarrow> real \<Rightarrow> Vector2D" where
  "vec a b \<equiv> \<lparr>vec_x = a, vec_y = b\<rparr>"

text \<open>
  The \<^verbatim>\<open>id\<close> strings are template strings; the model keeps the values they are formatted
  from: the clock reading and the random draw of a projectile, the loop index of an asteroid
  or a power-up, and the id string of a player.
\<close>

datatype ident = PlayerIdent string | ProjectileIdent real real | AsteroidIdent nat | PowerUpIdent nat

record GameObject =
  ident :: ident
  position :: Vector2D
  velocity :: Vector2D
  rotation :: real
  health :: real
  maxHealth :: real
  active :: bool

record Player = GameObject +
  playerId :: string
  score :: real
  kills :: real
  deaths :: real
  shield :: real
  maxShield :: real
  energy :: real
  maxEnergy :: real
  weaponCooldown :: real
  boostCooldown :: real

record Projectile = GameObject +
  ownerId :: string
  damage :: real
  lifetime :: real

text \<open>\<open>Undefined\<close> is what \<^verbatim>\<open>types[i]\<close> gives for an index outside the four types.\<close>

datatype powerUpType = Health | Shield | Energy | Weapon | Undefined

record PowerUp = GameObject +
  ptype :: powerUpType
  pvalue :: real
  respawnTime :: real

record Asteroid = GameObject +
  sizeA :: real
  rotationSpeed :: real

datatype color = Hsl real real real | Css string

record Particle =
  p_position :: Vector2D
  p_velocity :: Vector2D
  color :: color
  life :: real
  maxLife :: real
  p_size :: real

text \<open>The message handed to the network callback by \<^verbatim>\<open>sendNetworkUpdate\<close>.\<close>

record PlayerUpdate =
  m_playerId :: string
  m_position :: Vector2D
  m_rotation :: real
  m_health :: real
  m_shield :: real
  m_energy :: real

text \<open>
  The fields of the class. \<open>players\<close> is the \<^verbatim>\<open>Map\<close> from id to player, an association list
  in insertion order (the order \<^verbatim>\<open>forEach\<close> visits). A player object is reached through its
  key: a mutation of the object is an update of the entry. \<open>hasCallback\<close> says whether
  \<^verbatim>\<open>networkUpdateCallback\<close> is set, and \<open>sent\<close> collects the messages passed to it.
  \<open>debugTimers\<close> holds the ids whose \<^verbatim>\<open>setInterval\<close> callback is registered (the handle kept
  in \<^verbatim>\<open>_debugInterval\<close> is read by \<^verbatim>\<open>cleanup\<close> only, which is not modelled).
\<close>

record GameEngine =
  canvas_width :: real
  canvas_height :: real
  players :: "(string \<times> Player) list"
  projectiles :: "Projectile list"
  powerUps :: "PowerUp list"
  asteroids :: "Asteroid list"
  particles :: "Particle list"
  gameTime :: real
  lastUpdate :: real
  isHost :: bool
  localPlayerId :: string
  keys :: "string set"
  mouse_x :: real
  mouse_y :: real
  mouse_pressed :: bool
  debugMode :: bool
  debugTimers :: "string list"
  hasCallback :: bool
  sent :: "PlayerUpdate list"
  rng :: nat

section \<open>Helpers: random draws, player objects, array iteration\<close>

text \<open>\<open>drawn n\<close> records that \<open>n\<close> draws were made; the j-th of them is \<open>rnd (rng s + j)\<close>.\<close>

definition drawn :: "nat \<Rightarrow> GameEngine \<Rightarrow> GameEngine" where
  "drawn n s = s\<lparr>rng := rng s + n\<rparr>"

definition getPlayer :: "string \<Rightarrow> GameEngine \<Rightarrow> Player option" where
  "getPlayer k s = map_of (players s) k"

text \<open>
  Mutating the player object stored under key \<open>k\<close>: \<open>putPlayer\<close> writes the object back
  after its fields were assigned, \<open>modifyPlayer\<close> assigns fields in place.
\<close>

definition putPlayer :: "string \<Rightarrow> Player \<Rightarrow> GameEngine \<Rightarrow> GameEngine" where
  "putPlayer k p s = s\<lparr>players := AList.map_entry k (\<lambda>_. p) (players s)\<rparr>"

definition modifyPlayer :: "string \<Rightarrow> (Player \<Rightarrow> Player) \<Rightarrow> GameEngine \<Rightarrow> GameEngine" where
  "modifyPlayer k f s = s\<lparr>players := AList.map_entry k f (players s)\<rparr>"

text \<open>
  \<^verbatim>\<open>Array.prototype.forEach\<close>: the length is read once, before the first call; the indices
  \<open>0 .. len - 1\<close> are visited in order, and an index that is no longer in the array when its
  turn comes (the array was shortened by a \<^verbatim>\<open>splice\<close> in an earlier call) is skipped. The
  callback \<open>body k\<close> reads element \<open>k\<close> from the current state.
\<close>

primrec forEachFrom :: "('s \<Rightarrow> nat) \<Rightarrow> (nat \<Rightarrow> 's \<Rightarrow> 's) \<Rightarrow> nat \<Rightarrow> nat \<Rightarrow> 's \<Rightarrow> 's" where
  "forEachFrom len body 0 k s = s"
| "forEachFrom len body (Suc n) k s =
     forEachFrom len body n (Suc k) (if k < len s then body k s else s)"

definition forEach :: "('s \<Rightarrow> nat) \<Rightarrow> (nat \<Rightarrow> 's \<Rightarrow> 's) \<Rightarrow> 's \<Rightarrow> 's" where
  "forEach len body s = forEachFrom len body (len s) 0 s"

text \<open>\<^verbatim>\<open>this.projectiles.splice(pIndex, 1)\<close>: nothing is removed when the index is out of range.\<close>

definition spliceProjectile :: "nat \<Rightarrow> GameEngine \<Rightarrow> GameEngine" where
  "spliceProjectile pIndex s = s\<lparr>projectiles := take pIndex (projectiles s) @ drop (Suc pIndex) (projectiles s)\<rparr>"

definition getDistance :: "Vector2D \<Rightarrow> Vector2D \<Rightarrow> real" where
  "getDistance pos1 pos2 =
     (let dx = vec_x pos1 - vec_x pos2; dy = vec_y pos1 - vec_y pos2
      in sqrt (dx * dx + dy * dy))"

text \<open>
  \<^verbatim>\<open>Math.atan2(dy, dx)\<close> of the JavaScript library, on reals (there is no negative zero).
\<close>

definition atan2 :: "real \<Rightarrow> real \<Rightarrow> real" where
  "atan2 dy dx =
     (if 0 < dx then arctan (dy / dx)
      else if dx < 0 then (if 0 \<le> dy then arctan (dy / dx) + pi else arctan (dy / dx) - pi)
      else if 0 < dy then pi / 2
      else if dy < 0 then - pi / 2
      else 0)"

section \<open>Particle emitters\<close>

text \<open>
  Each emitter is a counted loop pushing one particle per round; the draws are numbered in
  the order the object literal evaluates them.
\<close>

definition addEngineParticle :: "(nat \<Rightarrow> real) \<Rightarrow> Player \<Rightarrow> GameEngine \<Rightarrow> GameEngine" where
  "addEngineParticle rnd player s =
     (let r = (\<lambda>j. rnd (rng s + j)) in
      drawn 5 (s\<lparr>particles := particles s @
        [\<lparr>p_position = vec (vec_x (position player) - cos (rotation player) * 15)
                            (vec_y (position player) - sin (rotation player) * 15),
          p_velocity = vec (- cos (rotation player) * 100 + (r 0 - 0.5) * 50)
                            (- sin (rotation player) * 100 + (r 1 - 0.5) * 50),
          color = Hsl (30 + r 2 * 30) 100 (50 + r 3 * 30),
          life = 0.5, maxLife = 0.5, p_size = 2 + r 4 * 3\<rparr>]\<rparr>))"

definition addEngineParticles :: "(nat \<Rightarrow> real) \<Rightarrow> Player \<Rightarrow> GameEngine \<Rightarrow> GameEngine" where
  "addEngineParticles rnd player s = (addEngineParticle rnd player ^^ 3) s"

definition addBoostParticle :: "(nat \<Rightarrow> real) \<Rightarrow> Player \<Rightarrow> GameEngine \<Rightarrow> GameEngine" where
  "addBoostParticle rnd player s =
     (let r = (\<lambda>j. rnd (rng s + j)) in
      drawn 5 (s\<lparr>particles := particles s @
        [\<lparr>p_position = position player,
          p_velocity = vec ((r 0 - 0.5) * 200) ((r 1 - 0.5) * 200),
          color = Hsl (200 + r 2 * 60) 100 (60 + r 3 * 20),
          life = 0.8, maxLife = 0.8, p_size = 3 + r 4 * 4\<rparr>]\<rparr>))"

definition addBoostParticles :: "(nat \<Rightarrow> real) \<Rightarrow> Player \<Rightarrow> GameEngine \<Rightarrow> GameEngine" where
  "addBoostParticles rnd player s = (addBoostParticle rnd player ^^ 8) s"

definition addMuzzleFlashParticle :: "(nat \<Rightarrow> real) \<Rightarrow> Player \<Rightarrow> GameEngine \<Rightarrow> GameEngine" where
  "addMuzzleFlashParticle rnd player s =
     (let r = (\<lambda>j. rnd (rng s + j)) in
      drawn 5 (s\<lparr>particles := particles s @
        [\<lparr>p_position = vec (vec_x (position player) + cos (rotation player) * 20)
                            (vec_y (position player) + sin (rotation player) * 20),
          p_velocity = vec (cos (rotation player) * 50 + (r 0 - 0.5) * 30)
                            (sin (rotation player) * 50 + (r 1 - 0.5) * 30),
          color = Hsl (45 + r 2 * 15) 100 (80 + r 3 * 20),
          life = 0.2, maxLife = 0.2, p_size = 2 + r 4 * 2\<rparr>]\<rparr>))"

definition addMuzzleFlashParticles :: "(nat \<Rightarrow> real) \<Rightarrow> Player \<Rightarrow> GameEngine \<Rightarrow> GameEngine" where
  "addMuzzleFlashParticles rnd player s = (addMuzzleFlashParticle rnd player ^^ 5) s"

definition addHitParticle :: "(nat \<Rightarrow> real) \<Rightarrow> Vector2D \<Rightarrow> GameEngine \<Rightarrow> GameEngine" where
  "addHitParticle rnd pos s =
     (let r = (\<lambda>j. rnd (rng s + j)) in
      drawn 4 (s\<lparr>particles := particles s @
        [\<lparr>p_position = pos,
          p_velocity = vec ((r 0 - 0.5) * 150) ((r 1 - 0.5) * 150),
          color = Hsl 0 100 (60 + r 2 * 30),
          life = 0.6, maxLife = 0.6, p_size = 2 + r 3 * 3\<rparr>]\<rparr>))"

definition addHitParticles :: "(nat \<Rightarrow> real) \<Rightarrow> Vector2D \<Rightarrow> GameEngine \<Rightarrow> GameEngine" where
  "addHitParticles rnd pos s = (addHitParticle rnd pos ^^ 6) s"

definition addExplosionParticle :: "(nat \<Rightarrow> real) \<Rightarrow> Vector2D \<Rightarrow> string \<Rightarrow> GameEngine \<Rightarrow> GameEngine" where
  "addExplosionParticle rnd pos baseColor s =
     (let r = (\<lambda>j. rnd (rng s + j)) in
      drawn 5 (s\<lparr>particles := particles s @
        [\<lparr>p_position = pos,
          p_velocity = vec ((r 0 - 0.5) * 300) ((r 1 - 0.5) * 300),
          color = (if baseColor = ''red'' then Hsl (r 2 * 30) 100 (60 + r 3 * 30)
                   else Hsl (30 + r 2 * 30) 100 (60 + r 3 * 30)),
          life = 1, maxLife = 1, p_size = 3 + r 4 * 5\<rparr>]\<rparr>))"

definition addExplosionParticles :: "(nat \<Rightarrow> real) \<Rightarrow> Vector2D \<Rightarrow> string \<Rightarrow> GameEngine \<Rightarrow> GameEngine" where
  "addExplosionParticles rnd pos baseColor s = (addExplosionParticle rnd pos baseColor ^^ 12) s"

definition addCollectionParticle :: "(nat \<Rightarrow> real) \<Rightarrow> Vector2D \<Rightarrow> color \<Rightarrow> GameEngine \<Rightarrow> GameEngine" where
  "addCollectionParticle rnd pos c s =
     (let r = (\<lambda>j. rnd (rng s + j)) in
      drawn 3 (s\<lparr>particles := particles s @
        [\<lparr>p_position = pos,
          p_velocity = vec ((r 0 - 0.5) * 100) ((r 1 - 0.5) * 100),
          color = c,
          life = 0.8, maxLife = 0.8, p_size = 2 + r 2 * 3\<rparr>]\<rparr>))"

definition addCollectionParticles :: "(nat \<Rightarrow> real) \<Rightarrow> Vector2D \<Rightarrow> color \<Rightarrow> GameEngine \<Rightarrow> GameEngine" where
  "addCollectionParticles rnd pos c s = (addCollectionParticle rnd pos c ^^ 8) s"

fun getPowerUpColor :: "powerUpType \<Rightarrow> color" where
  "getPowerUpColor Health = Css ''#ff4444''"
| "getPowerUpColor Shield = Css ''#4444ff''"
| "getPowerUpColor Energy = Css ''#ffff44''"
| "getPowerUpColor Weapon = Css ''#ff44ff''"
| "getPowerUpColor Undefined = Css ''#ffffff''"

section \<open>Creating the engine, its players, asteroids and power-ups\<close>

definition createPlayer :: "string \<Rightarrow> string \<Rightarrow> Vector2D \<Rightarrow> GameEngine \<Rightarrow> GameEngine" where
  "createPlayer pid name pos s =
     s\<lparr>players := AList.update pid
         \<lparr>ident = PlayerIdent pid, position = pos, velocity = vec 0 0, rotation = 0,
          health = 100, maxHealth = 100, active = True,
          playerId = pid, score = 0, kills = 0, deaths = 0,
          shield = 100, maxShield = 100, energy = 100, maxEnergy = 100,
          weaponCooldown = 0, boostCooldown = 0\<rparr> (players s)\<rparr>"

definition generateAsteroid :: "(nat \<Rightarrow> real) \<Rightarrow> nat \<Rightarrow> GameEngine \<Rightarrow> GameEngine" where
  "generateAsteroid rnd i s =
     (let r = (\<lambda>j. rnd (rng s + j)) in
      drawn 7 (s\<lparr>asteroids := asteroids s @
        [\<lparr>ident = AsteroidIdent i,
          position = vec (r 0 * canvas_width s) (r 1 * canvas_height s),
          velocity = vec ((r 2 - 0.5) * 2) ((r 3 - 0.5) * 2),
          rotation = r 4 * pi * 2,
          health = 50, maxHealth = 50, active = True,
          sizeA = 20 + r 6 * 30,
          rotationSpeed = (r 5 - 0.5) * 0.1\<rparr>]\<rparr>))"

definition generateAsteroids :: "(nat \<Rightarrow> real) \<Rightarrow> GameEngine \<Rightarrow> GameEngine" where
  "generateAsteroids rnd s = fold (generateAsteroid rnd) [0..<25] s"

text \<open>\<^verbatim>\<open>types[Math.floor(Math.random() * types.length)]\<close>\<close>

definition pickType :: "real \<Rightarrow> powerUpType" where
  "pickType r =
     (let i = \<lfloor>r * 4\<rfloor> in
      if i = 0 then Health else if i = 1 then Shield else if i = 2 then Energy
      else if i = 3 then Weapon else Undefined)"

definition generatePowerUp :: "(nat \<Rightarrow> real) \<Rightarrow> nat \<Rightarrow> GameEngine \<Rightarrow> GameEngine" where
  "generatePowerUp rnd i s =
     (let r = (\<lambda>j. rnd (rng s + j)) in
      drawn 4 (s\<lparr>powerUps := powerUps s @
        [\<lparr>ident = PowerUpIdent i,
          position = vec (r 0 * canvas_width s) (r 1 * canvas_height s),
          velocity = vec 0 0, rotation = 0,
          health = 1, maxHealth = 1, active = True,
          ptype = pickType (r 2),
          pvalue = 25 + r 3 * 25,
          respawnTime = 0\<rparr>]\<rparr>))"

definition generatePowerUps :: "(nat \<Rightarrow> real) \<Rightarrow> GameEngine \<Rightarrow> GameEngine" where
  "generatePowerUps rnd s = fold (generatePowerUp rnd) [0..<8] s"

text \<open>The field initialisers of the class, for a canvas of the given size.\<close>

definition initialFields :: "real \<Rightarrow> real \<Rightarrow> GameEngine" where
  "initialFields w h =
     \<lparr>canvas_width = w, canvas_height = h, players = [], projectiles = [], powerUps = [],
      asteroids = [], particles = [], gameTime = 0, lastUpdate = 0, isHost = False,
      localPlayerId = [], keys = {}, mouse_x = 0, mouse_y = 0, mouse_pressed = False,
      debugMode = False, debugTimers = [], hasCallback = False, sent = [], rng = 0\<rparr>"

text \<open>
  The constructor: \<open>hasCtx\<close> says whether the canvas gives a 2D context; without one the
  constructor throws, which is \<open>None\<close>.
\<close>

definition constructor :: "(nat \<Rightarrow> real) \<Rightarrow> bool \<Rightarrow> real \<Rightarrow> real \<Rightarrow> GameEngine option" where
  "constructor rnd hasCtx w h =
     (if \<not> hasCtx then None
      else Some (generatePowerUps rnd (generateAsteroids rnd (initialFields w h))))"

definition initializeAsHost :: "string \<Rightarrow> GameEngine \<Rightarrow> GameEngine" where
  "initializeAsHost pid s =
     createPlayer pid ''Host'' (vec 100 300) (s\<lparr>isHost := True, localPlayerId := pid\<rparr>)"

definition initializeAsClient :: "string \<Rightarrow> GameEngine \<Rightarrow> GameEngine" where
  "initializeAsClient pid s =
     createPlayer pid ''Client'' (vec 700 300) (s\<lparr>isHost := False, localPlayerId := pid\<rparr>)"

definition addDebugPlayer :: "string \<Rightarrow> GameEngine \<Rightarrow> GameEngine" where
  "addDebugPlayer pid s =
     (createPlayer pid ''Debug Player'' (vec 700 300) (s\<lparr>debugMode := True\<rparr>))
       \<lparr>debugTimers := debugTimers s @ [pid]\<rparr>"

text \<open>The callback that \<^verbatim>\<open>addDebugPlayer\<close> registers with \<^verbatim>\<open>setInterval\<close>.\<close>

definition debugInterval :: "(nat \<Rightarrow> real) \<Rightarrow> real \<Rightarrow> string \<Rightarrow> GameEngine \<Rightarrow> GameEngine" where
  "debugInterval rnd dateNow pid s =
     (case getPlayer pid s of
        None \<Rightarrow> s
      | Some debugPlayer \<Rightarrow>
          (let r = (\<lambda>j. rnd (rng s + j));
               randomX = (r 0 - 0.5) * 2;
               randomY = (r 1 - 0.5) * 2;
               p = debugPlayer\<lparr>velocity := vec (randomX * 100) (randomY * 100)\<rparr>;
               s1 = putPlayer pid p s
           in if r 2 > 0.95
              then drawn 4 (s1\<lparr>projectiles := projectiles s1 @
                     [\<lparr>ident = ProjectileIdent dateNow (r 3),
                       position = position p,
                       velocity = vec (cos (rotation p) * 400) (sin (rotation p) * 400),
                       rotation = rotation p,
                       health = 1, maxHealth = 1, active = True,
                       ownerId = playerId p, damage = 25, lifetime = 3\<rparr>]\<rparr>)
              else drawn 3 s1))"

section \<open>Input and shooting\<close>

definition handleShooting :: "(nat \<Rightarrow> real) \<Rightarrow> real \<Rightarrow> GameEngine \<Rightarrow> GameEngine" where
  "handleShooting rnd dateNow s =
     (case getPlayer (localPlayerId s) s of
        None \<Rightarrow> s
      | Some player \<Rightarrow>
          if weaponCooldown player > 0 \<or> energy player < 10 then s
          else
            (let projectile =
                   \<lparr>ident = ProjectileIdent dateNow (rnd (rng s)),
                    position = position player,
                    velocity = vec (cos (rotation player) * 400) (sin (rotation player) * 400),
                    rotation = rotation player,
                    health = 1, maxHealth = 1, active = True,
                    ownerId = playerId player, damage = 25, lifetime = 3\<rparr>;
                 s1 = drawn 1 (s\<lparr>projectiles := projectiles s @ [projectile]\<rparr>);
                 p = player\<lparr>weaponCooldown := 0.2, energy := energy player - 10\<rparr>
             in addMuzzleFlashParticles rnd p (putPlayer (localPlayerId s) p s1)))"

text \<open>
  \<open>handlePlayerInput\<close> receives the player object; the model receives its key \<open>k\<close> in the
  player store, where \<^verbatim>\<open>handleShooting\<close> reaches the same object through
  \<^verbatim>\<open>localPlayerId\<close>. Each block of the function is one definition, in the order of the
  source: forward thrust, reverse thrust, the two rotations, boost, shooting, and facing the
  mouse.
\<close>

definition inputForward :: "(nat \<Rightarrow> real) \<Rightarrow> string \<Rightarrow> real \<Rightarrow> GameEngine \<Rightarrow> GameEngine" where
  "inputForward rnd k deltaTime s =
     (case getPlayer k s of
        None \<Rightarrow> s
      | Some player \<Rightarrow>
          if ''KeyW'' \<in> keys s
          then (let thrust = 5;
                    p = player\<lparr>velocity :=
                          vec (vec_x (velocity player) + cos (rotation player) * thrust * deltaTime)
                              (vec_y (velocity player) + sin (rotation player) * thrust * deltaTime)\<rparr>
                in addEngineParticles rnd p (putPlayer k p s))
          else s)"

definition inputBackward :: "string \<Rightarrow> real \<Rightarrow> GameEngine \<Rightarrow> GameEngine" where
  "inputBackward k deltaTime s =
     (if ''KeyS'' \<in> keys s
      then modifyPlayer k
             (\<lambda>player. player\<lparr>velocity :=
                vec (vec_x (velocity player) - cos (rotation player) * 3 * deltaTime)
                    (vec_y (velocity player) - sin (rotation player) * 3 * deltaTime)\<rparr>) s
      else s)"

definition inputRotate :: "string \<Rightarrow> real \<Rightarrow> GameEngine \<Rightarrow> GameEngine" where
  "inputRotate k deltaTime s =
     (let rotationSpeed = 3;
          s1 = (if ''KeyA'' \<in> keys s
                then modifyPlayer k (\<lambda>player. player\<lparr>rotation := rotation player - rotationSpeed * deltaTime\<rparr>) s
                else s)
      in if ''KeyD'' \<in> keys s
         then modifyPlayer k (\<lambda>player. player\<lparr>rotation := rotation player + rotationSpeed * deltaTime\<rparr>) s1
         else s1)"

definition inputBoost :: "(nat \<Rightarrow> real) \<Rightarrow> string \<Rightarrow> real \<Rightarrow> GameEngine \<Rightarrow> GameEngine" where
  "inputBoost rnd k deltaTime s =
     (case getPlayer k s of
        None \<Rightarrow> s
      | Some player \<Rightarrow>
          if ''Space'' \<in> keys s \<and> energy player > 20 \<and> boostCooldown player \<le> 0
          then (let boostPower = 10;
                    p = player\<lparr>velocity :=
                          vec (vec_x (velocity player) + cos (rotation player) * boostPower * deltaTime)
                              (vec_y (velocity player) + sin (rotation player) * boostPower * deltaTime),
                        energy := energy player - 20,
                        boostCooldown := 1\<rparr>
                in addBoostParticles rnd p (putPlayer k p s))
          else s)"

definition inputShoot :: "(nat \<Rightarrow> real) \<Rightarrow> real \<Rightarrow> GameEngine \<Rightarrow> GameEngine" where
  "inputShoot rnd dateNow s = (if mouse_pressed s then handleShooting rnd dateNow s else s)"

definition inputAim :: "string \<Rightarrow> GameEngine \<Rightarrow> GameEngine" where
  "inputAim k s =
     modifyPlayer k
       (\<lambda>player.
          (let dx = mouse_x s - vec_x (position player);
               dy = mouse_y s - vec_y (position player)
           in player\<lparr>rotation := atan2 dy dx\<rparr>)) s"

definition handlePlayerInput :: "(nat \<Rightarrow> real) \<Rightarrow> real \<Rightarrow> string \<Rightarrow> real \<Rightarrow> GameEngine \<Rightarrow> GameEngine" where
  "handlePlayerInput rnd dateNow k deltaTime s =
     inputAim k
       (inputShoot rnd dateNow
          (inputBoost rnd k deltaTime
             (inputRotate k deltaTime
                (inputBackward k deltaTime
                   (inputForward rnd k deltaTime s)))))"

section \<open>The per-tick updates\<close>

text \<open>The callback of \<^verbatim>\<open>this.players.forEach\<close> in \<^verbatim>\<open>updatePlayers\<close>, for one player.\<close>

definition updatePlayer :: "real \<Rightarrow> real \<Rightarrow> real \<Rightarrow> Player \<Rightarrow> Player" where
  "updatePlayer deltaTime w h player =
     (let px = vec_x (position player) + vec_x (velocity player) * deltaTime * 60;
          py = vec_y (position player) + vec_y (velocity player) * deltaTime * 60;
          vel = vec (vec_x (velocity player) * 0.98) (vec_y (velocity player) * 0.98);
          px1 = (if px < 0 then w else px);
          px2 = (if px1 > w then 0 else px1);
          py1 = (if py < 0 then h else py);
          py2 = (if py1 > h then 0 else py1);
          sh = (if shield player < maxShield player
                then min (maxShield player) (shield player + 10 * deltaTime) else shield player);
          en = (if energy player < maxEnergy player
                then min (maxEnergy player) (energy player + 20 * deltaTime) else energy player);
          wc = (if weaponCooldown player > 0 then weaponCooldown player - deltaTime
                else weaponCooldown player);
          bc = (if boostCooldown player > 0 then boostCooldown player - deltaTime
                else boostCooldown player)
      in player\<lparr>position := vec px2 py2, velocity := vel, shield := sh, energy := en,
                weaponCooldown := wc, boostCooldown := bc\<rparr>)"

definition updatePlayers :: "(nat \<Rightarrow> real) \<Rightarrow> real \<Rightarrow> real \<Rightarrow> GameEngine \<Rightarrow> GameEngine" where
  "updatePlayers rnd dateNow deltaTime s =
     (case getPlayer (localPlayerId s) s of
        None \<Rightarrow> s
      | Some localPlayer \<Rightarrow>
          (let s1 = handlePlayerInput rnd dateNow (localPlayerId s) deltaTime s
           in s1\<lparr>players :=
                  map (\<lambda>(k, player). (k, updatePlayer deltaTime (canvas_width s1) (canvas_height s1) player))
                      (players s1)\<rparr>))"

definition updateProjectile :: "real \<Rightarrow> Projectile \<Rightarrow> Projectile" where
  "updateProjectile deltaTime projectile =
     projectile\<lparr>position := vec (vec_x (position projectile) + vec_x (velocity projectile) * deltaTime)
                                (vec_y (position projectile) + vec_y (velocity projectile) * deltaTime),
                lifetime := lifetime projectile - deltaTime\<rparr>"

definition updateProjectiles :: "real \<Rightarrow> GameEngine \<Rightarrow> GameEngine" where
  "updateProjectiles deltaTime s =
     s\<lparr>projectiles :=
         filter (\<lambda>projectile.
                   \<not> (lifetime projectile \<le> 0 \<or>
                      vec_x (position projectile) < 0 \<or>
                      vec_x (position projectile) > canvas_width s \<or>
                      vec_y (position projectile) < 0 \<or>
                      vec_y (position projectile) > canvas_height s))
                (map (updateProjectile deltaTime) (projectiles s))\<rparr>"

text \<open>The callback of \<^verbatim>\<open>this.powerUps.forEach\<close> in \<^verbatim>\<open>updatePowerUps\<close>, at index \<open>i\<close>.\<close>

definition updatePowerUp :: "(nat \<Rightarrow> real) \<Rightarrow> real \<Rightarrow> nat \<Rightarrow> GameEngine \<Rightarrow> GameEngine" where
  "updatePowerUp rnd deltaTime i s =
     (let powerUp = powerUps s ! i;
          (p1, s1) =
            (if \<not> active powerUp \<and> respawnTime powerUp > 0
             then (let p = powerUp\<lparr>respawnTime := respawnTime powerUp - deltaTime\<rparr>
                   in if respawnTime p \<le> 0
                      then (p\<lparr>active := True,
                              position := vec (rnd (rng s) * canvas_width s)
                                              (rnd (rng s + 1) * canvas_height s)\<rparr>,
                            drawn 2 s)
                      else (p, s))
             else (powerUp, s))
      in s1\<lparr>powerUps := (powerUps s1)[i := p1\<lparr>rotation := rotation p1 + deltaTime * 2\<rparr>]\<rparr>)"

definition updatePowerUps :: "(nat \<Rightarrow> real) \<Rightarrow> real \<Rightarrow> GameEngine \<Rightarrow> GameEngine" where
  "updatePowerUps rnd deltaTime s =
     forEach (\<lambda>s. length (powerUps s)) (updatePowerUp rnd deltaTime) s"

definition updateAsteroid :: "real \<Rightarrow> real \<Rightarrow> real \<Rightarrow> Asteroid \<Rightarrow> Asteroid" where
  "updateAsteroid deltaTime w h asteroid =
     (let px = vec_x (position asteroid) + vec_x (velocity asteroid) * deltaTime * 60;
          py = vec_y (position asteroid) + vec_y (velocity asteroid) * deltaTime * 60;
          rot = rotation asteroid + rotationSpeed asteroid;
          px1 = (if px < - sizeA asteroid then w + sizeA asteroid else px);
          px2 = (if px1 > w + sizeA asteroid then - sizeA asteroid else px1);
          py1 = (if py < - sizeA asteroid then h + sizeA asteroid else py);
          py2 = (if py1 > h + sizeA asteroid then - sizeA asteroid else py1)
      in asteroid\<lparr>position := vec px2 py2, rotation := rot\<rparr>)"

definition updateAsteroids :: "real \<Rightarrow> GameEngine \<Rightarrow> GameEngine" where
  "updateAsteroids deltaTime s =
     s\<lparr>asteroids := map (updateAsteroid deltaTime (canvas_width s) (canvas_height s)) (asteroids s)\<rparr>"

definition updateParticle :: "real \<Rightarrow> Particle \<Rightarrow> Particle" where
  "updateParticle deltaTime particle =
     particle\<lparr>p_position := vec (vec_x (p_position particle) + vec_x (p_velocity particle) * deltaTime)
                                (vec_y (p_position particle) + vec_y (p_velocity particle) * deltaTime),
              life := life particle - deltaTime,
              p_velocity := vec (vec_x (p_velocity particle) * 0.98) (vec_y (p_velocity particle) * 0.98)\<rparr>"

definition updateParticles :: "real \<Rightarrow> GameEngine \<Rightarrow> GameEngine" where
  "updateParticles deltaTime s =
     s\<lparr>particles := filter (\<lambda>particle. life particle > 0) (map (updateParticle deltaTime) (particles s))\<rparr>"

section \<open>Collisions\<close>

text \<open>
  The functions that receive a player object take its key \<open>k\<close> in the player store; the
  killer is looked up by id, as in the source.
\<close>

definition handlePlayerDestroyed :: "(nat \<Rightarrow> real) \<Rightarrow> string \<Rightarrow> string \<Rightarrow> GameEngine \<Rightarrow> GameEngine" where
  "handlePlayerDestroyed rnd k killerId s =
     (case getPlayer k s of
        None \<Rightarrow> s
      | Some player \<Rightarrow>
          (let p = player\<lparr>deaths := deaths player + 1,
                          health := maxHealth player,
                          shield := maxShield player,
                          energy := maxEnergy player,
                          position := vec (rnd (rng s) * canvas_width s)
                                          (rnd (rng s + 1) * canvas_height s)\<rparr>;
               s1 = drawn 2 (putPlayer k p s);
               s2 = modifyPlayer killerId
                      (\<lambda>killer. killer\<lparr>kills := kills killer + 1, score := score killer + 100\<rparr>) s1
           in addExplosionParticles rnd (position p) ''red'' s2))"

definition handlePlayerHit :: "(nat \<Rightarrow> real) \<Rightarrow> string \<Rightarrow> Projectile \<Rightarrow> GameEngine \<Rightarrow> GameEngine" where
  "handlePlayerHit rnd k projectile s =
     (case getPlayer k s of
        None \<Rightarrow> s
      | Some player \<Rightarrow>
          (let (sh, dmg) =
                 (if shield player > 0
                  then (let shieldDamage = min (shield player) (damage projectile)
                        in (shield player - shieldDamage, damage projectile - shieldDamage))
                  else (shield player, damage projectile));
               hl = (if dmg > 0 then health player - dmg else health player);
               p = player\<lparr>shield := sh, health := hl\<rparr>;
               s1 = addHitParticles rnd (position p) (putPlayer k p s)
           in if hl \<le> 0 then handlePlayerDestroyed rnd k (ownerId projectile) s1 else s1))"

definition handlePowerUpCollection :: "(nat \<Rightarrow> real) \<Rightarrow> string \<Rightarrow> nat \<Rightarrow> GameEngine \<Rightarrow> GameEngine" where
  "handlePowerUpCollection rnd k i s =
     (case getPlayer k s of
        None \<Rightarrow> s
      | Some player \<Rightarrow>
          (let powerUp = powerUps s ! i;
               p = (case ptype powerUp of
                      Health \<Rightarrow> player\<lparr>health := min (maxHealth player) (health player + pvalue powerUp)\<rparr>
                    | Shield \<Rightarrow> player\<lparr>shield := min (maxShield player) (shield player + pvalue powerUp)\<rparr>
                    | Energy \<Rightarrow> player\<lparr>energy := min (maxEnergy player) (energy player + pvalue powerUp)\<rparr>
                    | Weapon \<Rightarrow> player\<lparr>score := score player + pvalue powerUp\<rparr>
                    | Undefined \<Rightarrow> player);
               pu = powerUp\<lparr>active := False, respawnTime := 10 + rnd (rng s) * 10\<rparr>;
               s1 = drawn 1 ((putPlayer k p s)\<lparr>powerUps := (powerUps s)[i := pu]\<rparr>)
           in addCollectionParticles rnd (position pu) (getPowerUpColor (ptype pu)) s1))"

text \<open>The callback of \<^verbatim>\<open>this.projectiles.forEach\<close> for the player under key \<open>k\<close>.\<close>

definition playerProjectile :: "(nat \<Rightarrow> real) \<Rightarrow> string \<Rightarrow> nat \<Rightarrow> GameEngine \<Rightarrow> GameEngine" where
  "playerProjectile rnd k pIndex s =
     (case getPlayer k s of
        None \<Rightarrow> s
      | Some player \<Rightarrow>
          (let projectile = projectiles s ! pIndex
           in if ownerId projectile = playerId player then s
              else if getDistance (position player) (position projectile) < 20
                   then spliceProjectile pIndex (handlePlayerHit rnd k projectile s)
                   else s))"

text \<open>The callback of \<^verbatim>\<open>this.powerUps.forEach\<close> for the player under key \<open>k\<close>.\<close>

definition playerPowerUp :: "(nat \<Rightarrow> real) \<Rightarrow> string \<Rightarrow> nat \<Rightarrow> GameEngine \<Rightarrow> GameEngine" where
  "playerPowerUp rnd k i s =
     (case getPlayer k s of
        None \<Rightarrow> s
      | Some player \<Rightarrow>
          (let powerUp = powerUps s ! i
           in if \<not> active powerUp then s
              else if getDistance (position player) (position powerUp) < 25
                   then handlePowerUpCollection rnd k i s
                   else s))"

text \<open>The callback of \<^verbatim>\<open>this.players.forEach\<close> in \<^verbatim>\<open>checkCollisions\<close>.\<close>

definition playerCollisions :: "(nat \<Rightarrow> real) \<Rightarrow> string \<Rightarrow> GameEngine \<Rightarrow> GameEngine" where
  "playerCollisions rnd k s =
     forEach (\<lambda>s. length (powerUps s)) (playerPowerUp rnd k)
       (forEach (\<lambda>s. length (projectiles s)) (playerProjectile rnd k) s)"

text \<open>
  The callback of the second \<^verbatim>\<open>this.projectiles.forEach\<close>: \<open>projectile\<close> stays bound to the
  element found at \<open>pIndex\<close> while the asteroids are visited.
\<close>

definition projectileAsteroids :: "(nat \<Rightarrow> real) \<Rightarrow> nat \<Rightarrow> GameEngine \<Rightarrow> GameEngine" where
  "projectileAsteroids rnd pIndex s =
     (let projectile = projectiles s ! pIndex
      in fold (\<lambda>asteroid s.
                 if getDistance (position projectile) (position asteroid) < sizeA asteroid
                 then spliceProjectile pIndex (addExplosionParticles rnd (position projectile) ''orange'' s)
                 else s)
           (asteroids s) s)"

definition checkCollisions :: "(nat \<Rightarrow> real) \<Rightarrow> GameEngine \<Rightarrow> GameEngine" where
  "checkCollisions rnd s =
     forEach (\<lambda>s. length (projectiles s)) (projectileAsteroids rnd)
       (fold (playerCollisions rnd) (map fst (players s)) s)"

section \<open>The tick and the session\<close>

definition sendNetworkUpdate :: "GameEngine \<Rightarrow> GameEngine" where
  "sendNetworkUpdate s =
     (case getPlayer (localPlayerId s) s of
        None \<Rightarrow> s
      | Some localPlayer \<Rightarrow>
          if \<not> hasCallback s then s
          else s\<lparr>sent := sent s @
                 [\<lparr>m_playerId = localPlayerId s, m_position = position localPlayer,
                   m_rotation = rotation localPlayer, m_health = health localPlayer,
                   m_shield = shield localPlayer, m_energy = energy localPlayer\<rparr>]\<rparr>)"

text \<open>\<open>now\<close> is the reading of \<^verbatim>\<open>performance.now()\<close>, \<open>dateNow\<close> that of \<^verbatim>\<open>Date.now()\<close>.\<close>

definition update :: "(nat \<Rightarrow> real) \<Rightarrow> real \<Rightarrow> real \<Rightarrow> GameEngine \<Rightarrow> GameEngine" where
  "update rnd now dateNow s =
     (let deltaTime = (now - lastUpdate s) / 1000;
          s0 = s\<lparr>lastUpdate := now, gameTime := gameTime s + deltaTime\<rparr>;
          s1 = updatePlayers rnd dateNow deltaTime s0;
          s2 = updateProjectiles deltaTime s1;
          s3 = updatePowerUps rnd deltaTime s2;
          s4 = updateAsteroids deltaTime s3;
          s5 = updateParticles deltaTime s4;
          s6 = checkCollisions rnd s5
      in if isHost s6 then sendNetworkUpdate s6 else s6)"

definition startGame :: "real \<Rightarrow> GameEngine \<Rightarrow> GameEngine" where
  "startGame now s = s\<lparr>gameTime := 0, lastUpdate := now\<rparr>"

definition resetGame :: "(nat \<Rightarrow> real) \<Rightarrow> GameEngine \<Rightarrow> GameEngine" where
  "resetGame rnd s =
     generatePowerUps rnd (s\<lparr>players := [], projectiles := [], particles := [], gameTime := 0\<rparr>)"

text \<open>
  What reaches the engine from outside: the calls of its public methods and the events its
  listeners are registered for. \<open>MouseMove\<close> carries \<^verbatim>\<open>clientX\<close>, \<^verbatim>\<open>clientY\<close> and the left and
  top of the canvas rectangle; \<open>MouseDown\<close> and \<open>MouseUp\<close> carry the button.
\<close>

datatype event =
    InitializeAsHost string
  | InitializeAsClient string
  | AddDebugPlayer string
  | DebugInterval string real
  | KeyDown string
  | KeyUp string
  | MouseMove real real real real
  | MouseDown int real
  | MouseUp int
  | SetNetworkUpdateCallback
  | StartGame real
  | ResetGame
  | Update real real

fun step :: "(nat \<Rightarrow> real) \<Rightarrow> event \<Rightarrow> GameEngine \<Rightarrow> GameEngine" where
  "step rnd (InitializeAsHost pid) s = initializeAsHost pid s"
| "step rnd (InitializeAsClient pid) s = initializeAsClient pid s"
| "step rnd (AddDebugPlayer pid) s = addDebugPlayer pid s"
| "step rnd (DebugInterval pid dateNow) s =
     (if pid \<in> set (debugTimers s) then debugInterval rnd dateNow pid s else s)"
| "step rnd (KeyDown code) s = s\<lparr>keys := insert code (keys s)\<rparr>"
| "step rnd (KeyUp code) s = s\<lparr>keys := keys s - {code}\<rparr>"
| "step rnd (MouseMove clientX clientY rectLeft rectTop) s =
     s\<lparr>mouse_x := clientX - rectLeft, mouse_y := clientY - rectTop\<rparr>"
| "step rnd (MouseDown button dateNow) s =
     (if button = 0 then handleShooting rnd dateNow (s\<lparr>mouse_pressed := True\<rparr>) else s)"
| "step rnd (MouseUp button) s = (if button = 0 then s\<lparr>mouse_pressed := False\<rparr> else s)"
| "step rnd SetNetworkUpdateCallback s = s\<lparr>hasCallback := True\<rparr>"
| "step rnd (StartGame now) s = startGame now s"
| "step rnd ResetGame s = resetGame rnd s"
| "step rnd (Update now dateNow) s = update rnd now dateNow s"

definition run :: "(nat \<Rightarrow> real) \<Rightarrow> event list \<Rightarrow> GameEngine \<Rightarrow> GameEngine" where
  "run rnd evs s = fold (step rnd) evs s"

text \<open>
  \<^verbatim>\<open>performance.now()\<close> is monotonic: the readings of a run never decrease. \<open>t\<close> is the last
  reading so far.
\<close>

fun clockOk :: "real \<Rightarrow> event list \<Rightarrow> bool" where
  "clockOk t [] = True"
| "clockOk t (Update now dateNow # evs) = (t \<le> now \<and> clockOk now evs)"
| "clockOk t (StartGame now # evs) = (t \<le> now \<and> clockOk now evs)"
| "clockOk t (ev # evs) = clockOk t evs"

text \<open>\<^verbatim>\<open>Math.random()\<close> returns a number in the interval from 0 (included) to 1 (excluded).\<close>

definition rndOk :: "(nat \<Rightarrow> real) \<Rightarrow> bool" where
  "rndOk rnd = (\<forall>n. 0 \<le> rnd n \<and> rnd n < 1)"

text \<open>
  The part of the state that no collision, emitter or player update touches: the state with
  its players, projectiles, power-ups, particles, sent messages and draw counter blanked.
\<close>

definition env :: "GameEngine \<Rightarrow> GameEngine" where
  "env s = s\<lparr>players := [], projectiles := [], powerUps := [], particles := [], sent := [], rng := 0\<rparr>"

section \<open>Predicates and example states used in the statements\<close>

text \<open>The condition under which a fire action is allowed.\<close>

definition canFire :: "GameEngine \<Rightarrow> bool" where
  "canFire s =
     (case getPlayer (localPlayerId s) s of
        None \<Rightarrow> False
      | Some player \<Rightarrow> weaponCooldown player \<le> 0 \<and> energy player \<ge> 10)"

text \<open>The resource bounds of one player, and of every player in the store.\<close>

definition playerBounds :: "Player \<Rightarrow> bool" where
  "playerBounds p =
     (0 \<le> health p \<and> health p \<le> maxHealth p \<and>
      0 \<le> shield p \<and> shield p \<le> maxShield p \<and>
      0 \<le> energy p \<and> energy p \<le> maxEnergy p)"

definition allPlayersBounded :: "GameEngine \<Rightarrow> bool" where
  "allPlayersBounded s = list_all (\<lambda>(k, p). playerBounds p) (players s)"

text \<open>
  The invariant of a run: the bounds of the players, and no projectile or power-up with a
  negative magnitude.
\<close>

definition stateOk :: "GameEngine \<Rightarrow> bool" where
  "stateOk s =
     (allPlayersBounded s \<and>
      list_all (\<lambda>pr. 0 \<le> damage pr) (projectiles s) \<and>
      list_all (\<lambda>pu. 0 \<le> pvalue pu) (powerUps s))"

text \<open>
  Example states: an 800 by 600 field with the host \<open>''a''\<close> at (100, 300) and a second
  player \<open>''b''\<close> at (700, 300); the same field with \<open>''b''\<close> alone, its shield at 50, and no
  local player; a projectile at rest; a player with given shield and health; an asteroid;
  and the random source whose every draw is 0.
\<close>

definition hostOnly :: GameEngine where
  "hostOnly = initializeAsHost ''a'' (initialFields 800 600)"

definition arena :: GameEngine where
  "arena = addDebugPlayer ''b'' hostOnly"

definition shot :: "real \<Rightarrow> string \<Rightarrow> Vector2D \<Rightarrow> real \<Rightarrow> Projectile" where
  "shot n owner pos dmg =
     \<lparr>ident = ProjectileIdent n 0, position = pos, velocity = vec 0 0, rotation = 0,
      health = 1, maxHealth = 1, active = True, ownerId = owner, damage = dmg, lifetime = 3\<rparr>"

definition weakened :: "real \<Rightarrow> real \<Rightarrow> Player \<Rightarrow> Player" where
  "weakened sh hl p = p\<lparr>shield := sh, health := hl\<rparr>"

definition rock :: "nat \<Rightarrow> Vector2D \<Rightarrow> Vector2D \<Rightarrow> real \<Rightarrow> Asteroid" where
  "rock i pos vel sz =
     \<lparr>ident = AsteroidIdent i, position = pos, velocity = vel, rotation = 0,
      health = 50, maxHealth = 50, active = True, sizeA = sz, rotationSpeed = 0\<rparr>"

definition zeroDraws :: "nat \<Rightarrow> real" where
  "zeroDraws n = 0"

definition botOnly :: GameEngine where
  "botOnly = modifyPlayer ''b'' (weakened 50 100) (addDebugPlayer ''b'' (initialFields 800 600))"

definition twoShots :: GameEngine where
  "twoShots = arena\<lparr>projectiles := [shot 1 ''b'' (vec 100 300) 25, shot 2 ''b'' (vec 100 300) 25]\<rparr>"

definition twoRocks :: GameEngine where
  "twoRocks = hostOnly
     \<lparr>projectiles := [shot 1 ''a'' (vec 400 400) 25, shot 2 ''a'' (vec 700 500) 25],
      asteroids := [rock 0 (vec 400 400) (vec 1 0) 20, rock 1 (vec 400 400) (vec 1 0) 20]\<rparr>"

text \<open>The engine that the constructor returns for an 800 by 600 canvas when every draw is 0.\<close>

definition constructed :: GameEngine where
  "constructed = generatePowerUps zeroDraws (generateAsteroids zeroDraws (initialFields 800 600))"

text \<open>One field of the player stored under a key, when there is one.\<close>

definition playerField :: "(Player \<Rightarrow> 'a) \<Rightarrow> string \<Rightarrow> GameEngine \<Rightarrow> 'a option" where
  "playerField f k s = map_option f (getPlayer k s)"

text \<open>The fields that input handling never writes.\<close>

definition vitals :: "Player \<Rightarrow> real \<times> real \<times> real \<times> real \<times> real" where
  "vitals p = (health p, maxHealth p, shield p, maxShield p, maxEnergy p)"

section \<open>Frame lemmas\<close>

lemma env_fields:
  assumes "env s' = env s"
  shows "canvas_width s' = canvas_width s" "canvas_height s' = canvas_height s"
    "asteroids s' = asteroids s" "gameTime s' = gameTime s" "lastUpdate s' = lastUpdate s"
    "isHost s' = isHost s" "localPlayerId s' = localPlayerId s" "keys s' = keys s"
    "mouse_x s' = mouse_x s" "mouse_y s' = mouse_y s" "mouse_pressed s' = mouse_pressed s"
    "debugMode s' = debugMode s" "debugTimers s' = debugTimers s" "hasCallback s' = hasCallback s"
proof -
  have e: "\<And>g. g (env s') = g (env s)" using assms by simp
  show "canvas_width s' = canvas_width s" using e[of canvas_width] by (simp add: env_def)
  show "canvas_height s' = canvas_height s" using e[of canvas_height] by (simp add: env_def)
  show "asteroids s' = asteroids s" using e[of asteroids] by (simp add: env_def)
  show "gameTime s' = gameTime s" using e[of gameTime] by (simp add: env_def)
  show "lastUpdate s' = lastUpdate s" using e[of lastUpdate] by (simp add: env_def)
  show "isHost s' = isHost s" using e[of isHost] by (simp add: env_def)
  show "localPlayerId s' = localPlayerId s" using e[of localPlayerId] by (simp add: env_def)
  show "keys s' = keys s" using e[of keys] by (simp add: env_def)
  show "mouse_x s' = mouse_x s" using e[of mouse_x] by (simp add: env_def)
  show "mouse_y s' = mouse_y s" using e[of mouse_y] by (simp add: env_def)
  show "mouse_pressed s' = mouse_pressed s" using e[of mouse_pressed] by (simp add: env_def)
  show "debugMode s' = debugMode s" using e[of debugMode] by (simp add: env_def)
  show "debugTimers s' = debugTimers s" using e[of debugTimers] by (simp add: env_def)
  show "hasCallback s' = hasCallback s" using e[of hasCallback] by (simp add: env_def)
qed

lemma env_simps [simp]:
  "env (s\<lparr>players := ps\<rparr>) = env s" "env (s\<lparr>projectiles := prs\<rparr>) = env s"
  "env (s\<lparr>powerUps := pus\<rparr>) = env s" "env (s\<lparr>particles := pts\<rparr>) = env s"
  "env (s\<lparr>sent := ms\<rparr>) = env s" "env (s\<lparr>rng := n\<rparr>) = env s"
  by (simp_all add: env_def)

lemma env_drawn [simp]: "env (drawn n s) = env s"
  by (simp add: drawn_def)

lemma drawn_fields [simp]:
  "players (drawn n s) = players s" "projectiles (drawn n s) = projectiles s"
  "powerUps (drawn n s) = powerUps s" "particles (drawn n s) = particles s"
  "rng (drawn n s) = rng s + n"
  by (simp_all add: drawn_def)

lemmas drawn_env_fields [simp] = env_fields[OF env_drawn]

text \<open>An emitter changes the particles and the draw counter, nothing else.\<close>

lemma funpow_shape:
  fixes f :: "GameEngine \<Rightarrow> GameEngine"
  assumes "\<And>s. \<exists>ps n. f s = s\<lparr>particles := ps, rng := n\<rparr>"
  shows "\<exists>ps n. (f ^^ m) s = s\<lparr>particles := ps, rng := n\<rparr>"
proof (induction m)
  case 0
  have "s = s\<lparr>particles := particles s, rng := rng s\<rparr>" by simp
  then show ?case by (metis funpow_0)
next
  case (Suc m)
  then obtain ps n where a: "(f ^^ m) s = s\<lparr>particles := ps, rng := n\<rparr>" by blast
  obtain ps' n' where b: "f ((f ^^ m) s) = ((f ^^ m) s)\<lparr>particles := ps', rng := n'\<rparr>"
    using assms by blast
  have "(f ^^ Suc m) s = s\<lparr>particles := ps', rng := n'\<rparr>"
    by (simp add: b) (simp add: a)
  then show ?case by blast
qed

lemma funpow_rng:
  fixes f :: "GameEngine \<Rightarrow> GameEngine"
  assumes "\<And>s. rng (f s) = rng s + c"
  shows "rng ((f ^^ m) s) = rng s + c * m"
  by (induction m) (simp_all add: assms)

lemma shape_frame:
  assumes "\<exists>ps n. s' = s\<lparr>particles := ps, rng := n\<rparr>"
  shows "players s' = players s" "projectiles s' = projectiles s" "powerUps s' = powerUps s"
    "env s' = env s"
  using assms by auto

lemma addEngineParticles_shape:
  "\<exists>ps n. addEngineParticles rnd player s = s\<lparr>particles := ps, rng := n\<rparr>"
  unfolding addEngineParticles_def
  by (rule funpow_shape) (simp add: addEngineParticle_def drawn_def Let_def, intro exI, rule refl)

lemma addBoostParticles_shape:
  "\<exists>ps n. addBoostParticles rnd player s = s\<lparr>particles := ps, rng := n\<rparr>"
  unfolding addBoostParticles_def
  by (rule funpow_shape) (simp add: addBoostParticle_def drawn_def Let_def, intro exI, rule refl)

lemma addMuzzleFlashParticles_shape:
  "\<exists>ps n. addMuzzleFlashParticles rnd player s = s\<lparr>particles := ps, rng := n\<rparr>"
  unfolding addMuzzleFlashParticles_def
  by (rule funpow_shape) (simp add: addMuzzleFlashParticle_def drawn_def Let_def, intro exI, rule refl)

lemma addHitParticles_shape:
  "\<exists>ps n. addHitParticles rnd pos s = s\<lparr>particles := ps, rng := n\<rparr>"
  unfolding addHitParticles_def
  by (rule funpow_shape) (simp add: addHitParticle_def drawn_def Let_def, intro exI, rule refl)

lemma addExplosionParticles_shape:
  "\<exists>ps n. addExplosionParticles rnd pos c s = s\<lparr>particles := ps, rng := n\<rparr>"
  unfolding addExplosionParticles_def
  by (rule funpow_shape) (simp only: addExplosionParticle_def drawn_def Let_def, intro exI, rule refl)

lemma addCollectionParticles_shape:
  "\<exists>ps n. addCollectionParticles rnd pos c s = s\<lparr>particles := ps, rng := n\<rparr>"
  unfolding addCollectionParticles_def
  by (rule funpow_shape) (simp add: addCollectionParticle_def drawn_def Let_def, intro exI, rule refl)

lemmas addEngineParticles_frame [simp] = shape_frame[OF addEngineParticles_shape]
lemmas addBoostParticles_frame [simp] = shape_frame[OF addBoostParticles_shape]
lemmas addMuzzleFlashParticles_frame [simp] = shape_frame[OF addMuzzleFlashParticles_shape]
lemmas addHitParticles_frame [simp] = shape_frame[OF addHitParticles_shape]
lemmas addExplosionParticles_frame [simp] = shape_frame[OF addExplosionParticles_shape]
lemmas addCollectionParticles_frame [simp] = shape_frame[OF addCollectionParticles_shape]

lemmas addEngineParticles_fields [simp] = env_fields[OF addEngineParticles_frame(4)]
lemmas addBoostParticles_fields [simp] = env_fields[OF addBoostParticles_frame(4)]
lemmas addMuzzleFlashParticles_fields [simp] = env_fields[OF addMuzzleFlashParticles_frame(4)]
lemmas addHitParticles_fields [simp] = env_fields[OF addHitParticles_frame(4)]
lemmas addExplosionParticles_fields [simp] = env_fields[OF addExplosionParticles_frame(4)]
lemmas addCollectionParticles_fields [simp] = env_fields[OF addCollectionParticles_frame(4)]

lemma addHitParticles_rng [simp]: "rng (addHitParticles rnd pos s) = rng s + 24"
  unfolding addHitParticles_def
  by (subst funpow_rng[where c = 4]) (simp_all add: addHitParticle_def drawn_def Let_def)

text \<open>Player objects in the store.\<close>

lemma getPlayer_frame: "players s' = players s \<Longrightarrow> getPlayer k s' = getPlayer k s"
  by (simp add: getPlayer_def)

lemma getPlayer_emitters [simp]:
  "getPlayer k (addEngineParticles rnd p s) = getPlayer k s"
  "getPlayer k (addBoostParticles rnd p s) = getPlayer k s"
  "getPlayer k (addMuzzleFlashParticles rnd p s) = getPlayer k s"
  "getPlayer k (addHitParticles rnd pos s) = getPlayer k s"
  "getPlayer k (addExplosionParticles rnd pos c s) = getPlayer k s"
  "getPlayer k (addCollectionParticles rnd pos c' s) = getPlayer k s"
  "getPlayer k (drawn n s) = getPlayer k s"
  by (simp_all add: getPlayer_def)

lemma getPlayer_updates [simp]:
  "getPlayer k (s\<lparr>projectiles := prs\<rparr>) = getPlayer k s"
  "getPlayer k (s\<lparr>powerUps := pus\<rparr>) = getPlayer k s"
  "getPlayer k (s\<lparr>particles := pts\<rparr>) = getPlayer k s"
  "getPlayer k (s\<lparr>asteroids := asts\<rparr>) = getPlayer k s"
  "getPlayer k (s\<lparr>rng := n\<rparr>) = getPlayer k s"
  "getPlayer k (s\<lparr>sent := ms\<rparr>) = getPlayer k s"
  "getPlayer k (s\<lparr>keys := ks\<rparr>) = getPlayer k s"
  "getPlayer k (s\<lparr>mouse_pressed := b\<rparr>) = getPlayer k s"
  "getPlayer k (s\<lparr>gameTime := t\<rparr>) = getPlayer k s"
  "getPlayer k (s\<lparr>lastUpdate := t\<rparr>) = getPlayer k s"
  by (simp_all add: getPlayer_def)

lemma getPlayer_modifyPlayer:
  "getPlayer k' (modifyPlayer k f s) =
     (if k' = k then map_option f (getPlayer k s) else getPlayer k' s)"
  by (auto simp: getPlayer_def modifyPlayer_def map_of_map_entry split: option.splits)

lemma getPlayer_putPlayer:
  "getPlayer k' (putPlayer k p s) =
     (if k' = k then map_option (\<lambda>_. p) (getPlayer k s) else getPlayer k' s)"
  by (auto simp: getPlayer_def putPlayer_def map_of_map_entry split: option.splits)

lemma keys_map_entry [simp]: "map fst (AList.map_entry k f xs) = map fst xs"
  by (induction xs) auto

lemma putPlayer_frame [simp]:
  "projectiles (putPlayer k p s) = projectiles s" "powerUps (putPlayer k p s) = powerUps s"
  "particles (putPlayer k p s) = particles s" "rng (putPlayer k p s) = rng s"
  "env (putPlayer k p s) = env s" "map fst (players (putPlayer k p s)) = map fst (players s)"
  by (simp_all add: putPlayer_def)

lemma modifyPlayer_frame [simp]:
  "projectiles (modifyPlayer k f s) = projectiles s" "powerUps (modifyPlayer k f s) = powerUps s"
  "particles (modifyPlayer k f s) = particles s" "rng (modifyPlayer k f s) = rng s"
  "env (modifyPlayer k f s) = env s" "map fst (players (modifyPlayer k f s)) = map fst (players s)"
  by (simp_all add: modifyPlayer_def)

lemmas putPlayer_fields [simp] = env_fields[OF putPlayer_frame(5)]
lemmas modifyPlayer_fields [simp] = env_fields[OF modifyPlayer_frame(5)]

lemma spliceProjectile_frame [simp]:
  "players (spliceProjectile i s) = players s" "powerUps (spliceProjectile i s) = powerUps s"
  "particles (spliceProjectile i s) = particles s" "rng (spliceProjectile i s) = rng s"
  "env (spliceProjectile i s) = env s" "getPlayer k (spliceProjectile i s) = getPlayer k s"
  "projectiles (spliceProjectile i s) = take i (projectiles s) @ drop (Suc i) (projectiles s)"
  by (simp_all add: spliceProjectile_def getPlayer_def)

lemmas spliceProjectile_fields [simp] = env_fields[OF spliceProjectile_frame(5)]

text \<open>Invariants of the loops.\<close>

lemma forEachFrom_inv:
  assumes "\<And>k s. P s \<Longrightarrow> k < len s \<Longrightarrow> P (body k s)" "P s"
  shows "P (forEachFrom len body n k s)"
  using assms(2) by (induction n arbitrary: k s) (simp_all add: assms(1))

lemma forEach_inv:
  assumes "\<And>k s. P s \<Longrightarrow> k < len s \<Longrightarrow> P (body k s)" "P s"
  shows "P (forEach len body s)"
  unfolding forEach_def using assms by (rule forEachFrom_inv)

lemma fold_inv:
  assumes "\<And>x s. P s \<Longrightarrow> P (f x s)" "P s"
  shows "P (fold f xs s)"
  using assms(2) by (induction xs arbitrary: s) (simp_all add: assms(1))

text \<open>No operation of a tick but \<open>updateAsteroids\<close> touches the environment.\<close>

lemma handleShooting_env [simp]: "env (handleShooting rnd dn s) = env s"
  by (simp add: handleShooting_def Let_def split: option.splits)

lemma inputForward_env [simp]: "env (inputForward rnd k dt s) = env s"
  by (simp add: inputForward_def Let_def split: option.splits)

lemma inputBackward_env [simp]: "env (inputBackward k dt s) = env s"
  by (simp add: inputBackward_def)

lemma inputRotate_env [simp]: "env (inputRotate k dt s) = env s"
  by (simp add: inputRotate_def Let_def)

lemma inputBoost_env [simp]: "env (inputBoost rnd k dt s) = env s"
  by (simp add: inputBoost_def Let_def split: option.splits)

lemma inputShoot_env [simp]: "env (inputShoot rnd dn s) = env s"
  by (simp add: inputShoot_def)

lemma inputAim_env [simp]: "env (inputAim k s) = env s"
  by (simp add: inputAim_def)

lemma handlePlayerInput_env [simp]: "env (handlePlayerInput rnd dn k dt s) = env s"
  by (simp add: handlePlayerInput_def)

lemma updatePlayers_env [simp]: "env (updatePlayers rnd dn dt s) = env s"
  by (simp add: updatePlayers_def Let_def split: option.splits)

lemma updateProjectiles_env [simp]: "env (updateProjectiles dt s) = env s"
  by (simp add: updateProjectiles_def)

lemma updatePowerUp_env [simp]: "env (updatePowerUp rnd dt i s) = env s"
  by (simp add: updatePowerUp_def Let_def split: prod.splits)

lemma updatePowerUps_env [simp]: "env (updatePowerUps rnd dt s) = env s"
  unfolding updatePowerUps_def by (rule forEach_inv[where P = "\<lambda>s'. env s' = env s"]) simp_all

lemma updateParticles_env [simp]: "env (updateParticles dt s) = env s"
  by (simp add: updateParticles_def)

lemma handlePlayerDestroyed_env [simp]: "env (handlePlayerDestroyed rnd k killerId s) = env s"
  by (simp add: handlePlayerDestroyed_def Let_def split: option.splits)

lemma handlePlayerHit_env [simp]: "env (handlePlayerHit rnd k pr s) = env s"
  by (simp add: handlePlayerHit_def Let_def split: option.splits prod.splits)

lemma handlePowerUpCollection_env [simp]: "env (handlePowerUpCollection rnd k i s) = env s"
  by (simp add: handlePowerUpCollection_def Let_def split: option.splits)

lemma playerProjectile_env [simp]: "env (playerProjectile rnd k i s) = env s"
  by (simp add: playerProjectile_def Let_def split: option.splits)

lemma playerPowerUp_env [simp]: "env (playerPowerUp rnd k i s) = env s"
  by (simp add: playerPowerUp_def Let_def split: option.splits)

lemma playerCollisions_env [simp]: "env (playerCollisions rnd k s) = env s"
  unfolding playerCollisions_def
  by (rule forEach_inv[where P = "\<lambda>s'. env s' = env s"], simp)
     (rule forEach_inv[where P = "\<lambda>s'. env s' = env s"], simp_all)

lemma projectileAsteroids_env [simp]: "env (projectileAsteroids rnd i s) = env s"
  unfolding projectileAsteroids_def Let_def
  by (rule fold_inv[where P = "\<lambda>s'. env s' = env s"]) simp_all

lemma checkCollisions_env [simp]: "env (checkCollisions rnd s) = env s"
  unfolding checkCollisions_def
  by (rule forEach_inv[where P = "\<lambda>s'. env s' = env s"], simp)
     (rule fold_inv[where P = "\<lambda>s'. env s' = env s"], simp_all)

lemma sendNetworkUpdate_env [simp]: "env (sendNetworkUpdate s) = env s"
  by (simp add: sendNetworkUpdate_def split: option.splits)

lemma debugInterval_env [simp]: "env (debugInterval rnd dn k s) = env s"
  by (simp add: debugInterval_def Let_def split: option.splits)

lemmas handleShooting_fields [simp] = env_fields[OF handleShooting_env]
lemmas inputForward_fields [simp] = env_fields[OF inputForward_env]
lemmas inputBackward_fields [simp] = env_fields[OF inputBackward_env]
lemmas inputRotate_fields [simp] = env_fields[OF inputRotate_env]
lemmas inputBoost_fields [simp] = env_fields[OF inputBoost_env]
lemmas inputShoot_fields [simp] = env_fields[OF inputShoot_env]
lemmas inputAim_fields [simp] = env_fields[OF inputAim_env]
lemmas handlePlayerInput_fields [simp] = env_fields[OF handlePlayerInput_env]
lemmas handlePlayerDestroyed_fields [simp] = env_fields[OF handlePlayerDestroyed_env]
lemmas handlePlayerHit_fields [simp] = env_fields[OF handlePlayerHit_env]
lemmas handlePowerUpCollection_fields [simp] = env_fields[OF handlePowerUpCollection_env]
lemmas playerProjectile_fields [simp] = env_fields[OF playerProjectile_env]
lemmas playerPowerUp_fields [simp] = env_fields[OF playerPowerUp_env]
lemmas playerCollisions_fields [simp] = env_fields[OF playerCollisions_env]
lemmas projectileAsteroids_fields [simp] = env_fields[OF projectileAsteroids_env]
lemmas updatePlayers_fields [simp] = env_fields[OF updatePlayers_env]
lemmas updateProjectiles_fields [simp] = env_fields[OF updateProjectiles_env]
lemmas updatePowerUps_fields [simp] = env_fields[OF updatePowerUps_env]
lemmas updateParticles_fields [simp] = env_fields[OF updateParticles_env]
lemmas checkCollisions_fields [simp] = env_fields[OF checkCollisions_env]
lemmas sendNetworkUpdate_fields [simp] = env_fields[OF sendNetworkUpdate_env]
lemmas debugInterval_fields [simp] = env_fields[OF debugInterval_env]

lemma updateAsteroids_fields [simp]:
  "players (updateAsteroids dt s) = players s" "projectiles (updateAsteroids dt s) = projectiles s"
  "powerUps (updateAsteroids dt s) = powerUps s" "lastUpdate (updateAsteroids dt s) = lastUpdate s"
  "isHost (updateAsteroids dt s) = isHost s" "gameTime (updateAsteroids dt s) = gameTime s"
  by (simp_all add: updateAsteroids_def)

lemma lastUpdate_update [simp]: "lastUpdate (update rnd now dn s) = now"
  by (simp add: update_def Let_def)

section \<open>Hits, destruction and respawn\<close>

lemma speed400: "getDistance (vec (cos r * 400) (sin r * 400)) (vec 0 0) = 400"
proof -
  have h: "(cos r * 400) * (cos r * 400) + (sin r * 400) * (sin r * 400) = 160000"
    using sin_cos_squared_add3[of r] by algebra
  have "sqrt ((cos r * 400) * (cos r * 400) + (sin r * 400) * (sin r * 400)) = 400"
    by (rule real_sqrt_unique) (simp_all only: h, simp_all)
  then show ?thesis by (simp add: getDistance_def)
qed

lemma handlePlayerDestroyed_player:
  fixes s :: GameEngine
  assumes "getPlayer k s = Some player" "killerId \<noteq> k"
  shows "getPlayer k (handlePlayerDestroyed rnd k killerId s) =
           Some (player\<lparr>deaths := deaths player + 1, health := maxHealth player,
                        shield := maxShield player, energy := maxEnergy player,
                        position := vec (rnd (rng s) * canvas_width s) (rnd (rng s + 1) * canvas_height s)\<rparr>)"
  using assms by (simp add: handlePlayerDestroyed_def Let_def getPlayer_modifyPlayer getPlayer_putPlayer)

lemma handlePlayerDestroyed_killer:
  fixes s :: GameEngine
  assumes "getPlayer k s = Some player" "killerId \<noteq> k"
  shows "getPlayer killerId (handlePlayerDestroyed rnd k killerId s) =
           map_option (\<lambda>killer. killer\<lparr>kills := kills killer + 1, score := score killer + 100\<rparr>)
             (getPlayer killerId s)"
  using assms by (simp add: handlePlayerDestroyed_def Let_def getPlayer_modifyPlayer getPlayer_putPlayer)

lemma handlePlayerDestroyed_other:
  fixes s :: GameEngine
  assumes "k' \<noteq> k" "k' \<noteq> killerId"
  shows "getPlayer k' (handlePlayerDestroyed rnd k killerId s) = getPlayer k' s"
  using assms by (simp add: handlePlayerDestroyed_def Let_def getPlayer_modifyPlayer getPlayer_putPlayer split: option.splits)

lemma handlePlayerDestroyed_frame [simp]:
  "map fst (players (handlePlayerDestroyed rnd k killerId s)) = map fst (players s)"
  "projectiles (handlePlayerDestroyed rnd k killerId s) = projectiles s"
  "powerUps (handlePlayerDestroyed rnd k killerId s) = powerUps s"
  by (simp_all add: handlePlayerDestroyed_def Let_def split: option.splits)

lemma handlePlayerHit_frame [simp]:
  "map fst (players (handlePlayerHit rnd k pr s)) = map fst (players s)"
  "projectiles (handlePlayerHit rnd k pr s) = projectiles s"
  "powerUps (handlePlayerHit rnd k pr s) = powerUps s"
  by (simp_all add: handlePlayerHit_def Let_def split: option.splits prod.splits)

lemma handlePlayerHit_nonlethal:
  fixes s :: GameEngine
  assumes "getPlayer k s = Some player" "0 \<le> shield player" "0 \<le> damage pr"
    and "health player - (damage pr - min (shield player) (damage pr)) > 0"
  shows "getPlayer k (handlePlayerHit rnd k pr s) =
           Some (player\<lparr>shield := shield player - min (shield player) (damage pr),
                        health := health player - (damage pr - min (shield player) (damage pr))\<rparr>)"
  using assms
  by (auto simp add: handlePlayerHit_def Let_def getPlayer_putPlayer min_def split: prod.splits)

text \<open>A lethal hit is a hit followed by the destruction of the player.\<close>

lemma handlePlayerHit_lethal:
  fixes s :: GameEngine
  assumes "getPlayer k s = Some player" "0 \<le> shield player" "0 \<le> damage pr"
    and "health player - (damage pr - min (shield player) (damage pr)) \<le> 0"
  shows "handlePlayerHit rnd k pr s =
           handlePlayerDestroyed rnd k (ownerId pr)
             (addHitParticles rnd (position player)
                (putPlayer k (player\<lparr>shield := shield player - min (shield player) (damage pr),
                        health := health player - (damage pr - min (shield player) (damage pr))\<rparr>) s))"
  using assms
  by (auto simp add: handlePlayerHit_def Let_def min_def split: prod.splits)

lemma arena_a: "getPlayer ''a'' arena = Some
   \<lparr>ident = PlayerIdent ''a'', position = vec 100 300, velocity = vec 0 0, rotation = 0,
          health = 100, maxHealth = 100, active = True,
          playerId = ''a'', score = 0, kills = 0, deaths = 0,
          shield = 100, maxShield = 100, energy = 100, maxEnergy = 100,
          weaponCooldown = 0, boostCooldown = 0\<rparr>"
  by (simp add: arena_def hostOnly_def addDebugPlayer_def initializeAsHost_def createPlayer_def initialFields_def getPlayer_def)

lemma arena_b: "getPlayer ''b'' arena = Some
   \<lparr>ident = PlayerIdent ''b'', position = vec 700 300, velocity = vec 0 0, rotation = 0,
          health = 100, maxHealth = 100, active = True,
          playerId = ''b'', score = 0, kills = 0, deaths = 0,
          shield = 100, maxShield = 100, energy = 100, maxEnergy = 100,
          weaponCooldown = 0, boostCooldown = 0\<rparr>"
  by (simp add: arena_def hostOnly_def addDebugPlayer_def initializeAsHost_def createPlayer_def initialFields_def getPlayer_def)

lemma arena_keys: "map fst (players arena) = [''a'', ''b'']"
  by (simp add: arena_def hostOnly_def addDebugPlayer_def initializeAsHost_def createPlayer_def initialFields_def)

section \<open>Distances and the example states\<close>

lemma getDistance_less:
  "0 \<le> r \<Longrightarrow> getDistance p q < r \<longleftrightarrow>
     (vec_x p - vec_x q) * (vec_x p - vec_x q) + (vec_y p - vec_y q) * (vec_y p - vec_y q) < r * r"
proof -
  assume r: "0 \<le> r"
  let ?d = "(vec_x p - vec_x q) * (vec_x p - vec_x q) + (vec_y p - vec_y q) * (vec_y p - vec_y q)"
  have "sqrt ?d < r \<longleftrightarrow> sqrt ?d < sqrt (r * r)" using r by simp
  also have "\<dots> \<longleftrightarrow> ?d < r * r" by (rule real_sqrt_less_iff)
  finally show ?thesis by (simp add: getDistance_def Let_def)
qed

lemma forEach_0 [simp]: "len s = 0 \<Longrightarrow> forEach len body s = s"
  by (simp add: forEach_def)

lemma hostOnly_a: "getPlayer ''a'' hostOnly = Some
   \<lparr>ident = PlayerIdent ''a'', position = vec 100 300, velocity = vec 0 0, rotation = 0,
          health = 100, maxHealth = 100, active = True,
          playerId = ''a'', score = 0, kills = 0, deaths = 0,
          shield = 100, maxShield = 100, energy = 100, maxEnergy = 100,
          weaponCooldown = 0, boostCooldown = 0\<rparr>"
  by (simp add: hostOnly_def initializeAsHost_def createPlayer_def initialFields_def getPlayer_def)

lemma hostOnly_fields [simp]:
  "keys hostOnly = {}" "mouse_pressed hostOnly = False" "mouse_x hostOnly = 0" "mouse_y hostOnly = 0"
  "localPlayerId hostOnly = ''a''" "canvas_width hostOnly = 800" "canvas_height hostOnly = 600"
  "rng hostOnly = 0" "projectiles hostOnly = []"
  by (simp_all add: hostOnly_def initializeAsHost_def createPlayer_def initialFields_def)

section \<open>Input handling and the player update\<close>

lemma getPlayer_inputBoost:
  fixes s :: GameEngine
  assumes "getPlayer k s = Some player"
  shows "getPlayer k (inputBoost rnd k deltaTime s) =
     Some (if ''Space'' \<in> keys s \<and> energy player > 20 \<and> boostCooldown player \<le> 0
           then player\<lparr>velocity :=
                          vec (vec_x (velocity player) + cos (rotation player) * 10 * deltaTime)
                              (vec_y (velocity player) + sin (rotation player) * 10 * deltaTime),
                        energy := energy player - 20,
                        boostCooldown := 1\<rparr>
           else player)"
  using assms by (simp add: inputBoost_def Let_def getPlayer_putPlayer)

lemma handlePlayerInput_boost:
  fixes s :: GameEngine
  assumes "getPlayer k s = Some player"
    and "''KeyW'' \<notin> keys s" and "''KeyS'' \<notin> keys s"
    and "''KeyA'' \<notin> keys s" and "''KeyD'' \<notin> keys s"
    and "\<not> mouse_pressed s"
    and "aim = atan2 (mouse_y s - vec_y (position player)) (mouse_x s - vec_x (position player))"
  shows "getPlayer k (handlePlayerInput rnd dateNow k deltaTime s) =
     Some (if ''Space'' \<in> keys s \<and> energy player > 20 \<and> boostCooldown player \<le> 0
           then player\<lparr>velocity :=
                          vec (vec_x (velocity player) + cos (rotation player) * 10 * deltaTime)
                              (vec_y (velocity player) + sin (rotation player) * 10 * deltaTime),
                        energy := energy player - 20,
                        boostCooldown := 1,
                        rotation := aim\<rparr>
           else player\<lparr>rotation := aim\<rparr>)"
proof -
  have a: "inputRotate k deltaTime (inputBackward k deltaTime (inputForward rnd k deltaTime s)) = s"
    using assms by (simp add: inputForward_def inputBackward_def inputRotate_def)
  have b: "inputShoot rnd dateNow (inputBoost rnd k deltaTime s) = inputBoost rnd k deltaTime s"
    using assms by (simp add: inputShoot_def)
  show ?thesis
    unfolding handlePlayerInput_def a b
    using assms getPlayer_inputBoost[OF assms(1), of rnd deltaTime]
    by (simp add: inputAim_def getPlayer_modifyPlayer Let_def)
qed

lemma map_of_map_values:
  "map_of (map (\<lambda>(k, v). (k, f v)) xs) k = map_option f (map_of xs k)"
  by (induction xs) auto

lemma getPlayer_updatePlayers:
  fixes s :: GameEngine
  shows "getPlayer k (updatePlayers rnd dateNow deltaTime s) =
     (case getPlayer (localPlayerId s) s of
        None \<Rightarrow> getPlayer k s
      | Some localPlayer \<Rightarrow>
          map_option (updatePlayer deltaTime (canvas_width s) (canvas_height s))
            (getPlayer k (handlePlayerInput rnd dateNow (localPlayerId s) deltaTime s)))"
  by (simp add: updatePlayers_def Let_def getPlayer_def map_of_map_values split: option.splits)

lemma updatePlayer_fields:
  "weaponCooldown (updatePlayer dt w h p) =
     (if 0 < weaponCooldown p then weaponCooldown p - dt else weaponCooldown p)"
  "boostCooldown (updatePlayer dt w h p) =
     (if 0 < boostCooldown p then boostCooldown p - dt else boostCooldown p)"
  "shield (updatePlayer dt w h p) =
     (if shield p < maxShield p then min (maxShield p) (shield p + 10 * dt) else shield p)"
  "energy (updatePlayer dt w h p) =
     (if energy p < maxEnergy p then min (maxEnergy p) (energy p + 20 * dt) else energy p)"
  "velocity (updatePlayer dt w h p) = vec (vec_x (velocity p) * 0.98) (vec_y (velocity p) * 0.98)"
  "health (updatePlayer dt w h p) = health p" "maxHealth (updatePlayer dt w h p) = maxHealth p"
  "maxShield (updatePlayer dt w h p) = maxShield p" "maxEnergy (updatePlayer dt w h p) = maxEnergy p"
  by (simp_all add: updatePlayer_def Let_def)

section \<open>Two runs of the collision pass\<close>

text \<open>
  In \<open>twoShots\<close> two projectiles of \<open>''b''\<close> lie on player \<open>''a''\<close>. The first is consumed and
  spliced out; the second moves to index 0, the loop goes on to index 1, and the second
  projectile is never tested against \<open>''a''\<close>.
\<close>

lemma twoShots_fields [simp]:
  "projectiles twoShots = [shot 1 ''b'' (vec 100 300) 25, shot 2 ''b'' (vec 100 300) 25]"
  "asteroids twoShots = []" "players twoShots = players arena" "powerUps twoShots = []"
  by (simp_all add: twoShots_def arena_def hostOnly_def addDebugPlayer_def initializeAsHost_def createPlayer_def initialFields_def)

lemma twoShots_players: "getPlayer k twoShots = getPlayer k arena"
  by (simp add: getPlayer_def)

lemma shot_fields [simp]:
  "ownerId (shot n owner pos dmg) = owner" "position (shot n owner pos dmg) = pos"
  "damage (shot n owner pos dmg) = dmg"
  by (simp_all add: shot_def)

lemma twoShots_a:
  "projectiles (playerCollisions zeroDraws ''a'' twoShots) = [shot 2 ''b'' (vec 100 300) 25] \<and>
   playerField shield ''a'' (playerCollisions zeroDraws ''a'' twoShots) = Some 75 \<and>
   playerField health ''a'' (playerCollisions zeroDraws ''a'' twoShots) = Some 100 \<and>
   getPlayer ''b'' (playerCollisions zeroDraws ''a'' twoShots) = getPlayer ''b'' arena \<and>
   powerUps (playerCollisions zeroDraws ''a'' twoShots) = [] \<and>
   asteroids (playerCollisions zeroDraws ''a'' twoShots) = []"
proof -
  let ?hit = "addHitParticles zeroDraws (vec 100 300)
          (putPlayer ''a'' (weakened 75 100 (the (getPlayer ''a'' arena))) twoShots)"
  let ?s1 = "forEach (\<lambda>s. length (projectiles s)) (playerProjectile zeroDraws ''a'') twoShots"
  have h: "handlePlayerHit zeroDraws ''a'' (shot 1 ''b'' (vec 100 300) 25) twoShots = ?hit"
    by (simp add: handlePlayerHit_def twoShots_players arena_a weakened_def Let_def)
  have b0: "playerProjectile zeroDraws ''a'' 0 twoShots = spliceProjectile 0 ?hit"
    by (simp add: playerProjectile_def Let_def twoShots_players arena_a getDistance_def h)
  have l1: "projectiles (spliceProjectile 0 ?hit) = [shot 2 ''b'' (vec 100 300) 25]"
    by simp
  have s1: "?s1 = spliceProjectile 0 ?hit"
    by (simp add: forEach_def numeral_2_eq_2 b0 l1)
  have p: "powerUps ?s1 = []" unfolding s1 by simp
  have pc: "playerCollisions zeroDraws ''a'' twoShots = ?s1"
    unfolding playerCollisions_def by (simp add: p)
  show ?thesis unfolding pc s1
    by (simp add: playerField_def getPlayer_putPlayer twoShots_players arena_a arena_b weakened_def)
qed

lemma twoShots_result:
  "projectiles (checkCollisions zeroDraws twoShots) = [shot 2 ''b'' (vec 100 300) 25] \<and>
   playerField shield ''a'' (checkCollisions zeroDraws twoShots) = Some 75 \<and>
   playerField health ''a'' (checkCollisions zeroDraws twoShots) = Some 100"
proof -
  let ?s1 = "playerCollisions zeroDraws ''a'' twoShots"
  have gb: "getPlayer ''b'' ?s1 = getPlayer ''b'' arena" using twoShots_a by simp
  have pr: "projectiles ?s1 = [shot 2 ''b'' (vec 100 300) 25]" using twoShots_a by simp
  have pu: "powerUps ?s1 = []" using twoShots_a by simp
  have b: "forEach (\<lambda>s. length (projectiles s)) (playerProjectile zeroDraws ''b'') ?s1 = ?s1"
    by (simp add: forEach_def pr playerProjectile_def gb arena_b)
  have pcb: "playerCollisions zeroDraws ''b'' ?s1 = ?s1"
    by (subst playerCollisions_def) (simp add: b pu)
  have f: "fold (playerCollisions zeroDraws) (map fst (players twoShots)) twoShots = ?s1"
    by (simp add: arena_keys pcb)
  have ast: "projectileAsteroids zeroDraws 0 ?s1 = ?s1"
    using twoShots_a by (simp add: projectileAsteroids_def)
  have "checkCollisions zeroDraws twoShots = ?s1"
    unfolding checkCollisions_def f by (simp add: forEach_def pr ast)
  then show ?thesis using twoShots_a by simp
qed

text \<open>
  In \<open>twoRocks\<close> the first projectile lies in two asteroids and the second lies in none.
  Each of the two asteroids splices index 0: the second splice removes the second projectile.
\<close>

lemma twoRocks_fields [simp]:
  "projectiles twoRocks = [shot 1 ''a'' (vec 400 400) 25, shot 2 ''a'' (vec 700 500) 25]"
  "asteroids twoRocks = [rock 0 (vec 400 400) (vec 1 0) 20, rock 1 (vec 400 400) (vec 1 0) 20]"
  "players twoRocks = players hostOnly" "powerUps twoRocks = []"
  by (simp_all add: twoRocks_def hostOnly_def initializeAsHost_def createPlayer_def initialFields_def)

lemma hostOnly_keys: "map fst (players hostOnly) = [''a'']"
  by (simp add: hostOnly_def initializeAsHost_def createPlayer_def initialFields_def)

lemma twoRocks_players: "fold (playerCollisions zeroDraws) (map fst (players twoRocks)) twoRocks = twoRocks"
proof -
  have g: "getPlayer ''a'' twoRocks = getPlayer ''a'' hostOnly" by (simp add: getPlayer_def)
  have a: "forEach (\<lambda>s. length (projectiles s)) (playerProjectile zeroDraws ''a'') twoRocks = twoRocks"
    by (simp add: forEach_def numeral_2_eq_2 playerProjectile_def g hostOnly_a shot_def)
  show ?thesis by (simp add: hostOnly_keys playerCollisions_def a)
qed

lemma twoRocks_result: "projectiles (checkCollisions zeroDraws twoRocks) = []"
  unfolding checkCollisions_def twoRocks_players
  by (simp add: forEach_def numeral_2_eq_2 projectileAsteroids_def spliceProjectile_def shot_def rock_def getDistance_less)

section \<open>Shooting, generation and the remaining frame lemmas\<close>

lemma handleShooting_player:
  fixes s :: GameEngine
  assumes "getPlayer (localPlayerId s) s = Some player"
  shows "getPlayer (localPlayerId s) (handleShooting rnd dateNow s) =
           Some (if weaponCooldown player > 0 \<or> energy player < 10 then player
                 else player\<lparr>weaponCooldown := 0.2, energy := energy player - 10\<rparr>)"
  using assms by (simp add: handleShooting_def Let_def getPlayer_putPlayer)

lemma fired_a:
  "getPlayer ''a'' (handleShooting zeroDraws 0 hostOnly) =
     Some ((the (getPlayer ''a'' hostOnly))\<lparr>weaponCooldown := 0.2, energy := 90\<rparr>)"
  using handleShooting_player[of hostOnly _ zeroDraws 0] by (simp add: hostOnly_a)

lemma fired_input:
  "getPlayer ''a'' (handlePlayerInput zeroDraws 0 ''a'' dt (handleShooting zeroDraws 0 hostOnly)) =
     Some ((the (getPlayer ''a'' hostOnly))\<lparr>weaponCooldown := 0.2, energy := 90, rotation := atan2 (-300) (-100)\<rparr>)"
  using handlePlayerInput_boost[of "''a''" "handleShooting zeroDraws 0 hostOnly" _ _ zeroDraws 0 dt]
  by (simp add: fired_a hostOnly_a)

lemma generatePowerUp_frame [simp]:
  "players (generatePowerUp rnd i s) = players s" "projectiles (generatePowerUp rnd i s) = projectiles s"
  "particles (generatePowerUp rnd i s) = particles s" "env (generatePowerUp rnd i s) = env s"
  "length (powerUps (generatePowerUp rnd i s)) = Suc (length (powerUps s))"
  by (simp_all add: generatePowerUp_def Let_def)

lemma fold_generatePowerUp:
  "players (fold (generatePowerUp rnd) xs s) = players s \<and>
   projectiles (fold (generatePowerUp rnd) xs s) = projectiles s \<and>
   particles (fold (generatePowerUp rnd) xs s) = particles s \<and>
   env (fold (generatePowerUp rnd) xs s) = env s \<and>
   length (powerUps (fold (generatePowerUp rnd) xs s)) = length (powerUps s) + length xs"
  by (induction xs arbitrary: s) simp_all

lemma generatePowerUps_frame [simp]:
  "players (generatePowerUps rnd s) = players s" "projectiles (generatePowerUps rnd s) = projectiles s"
  "particles (generatePowerUps rnd s) = particles s" "env (generatePowerUps rnd s) = env s"
  "length (powerUps (generatePowerUps rnd s)) = length (powerUps s) + 8"
  using fold_generatePowerUp[of rnd "[0..<8]" s] by (simp_all add: generatePowerUps_def)

lemmas generatePowerUps_fields [simp] = env_fields[OF generatePowerUps_frame(4)]

lemma generateAsteroid_frame [simp]:
  "players (generateAsteroid rnd i s) = players s" "projectiles (generateAsteroid rnd i s) = projectiles s"
  "particles (generateAsteroid rnd i s) = particles s" "powerUps (generateAsteroid rnd i s) = powerUps s"
  "lastUpdate (generateAsteroid rnd i s) = lastUpdate s" "gameTime (generateAsteroid rnd i s) = gameTime s"
  "length (asteroids (generateAsteroid rnd i s)) = Suc (length (asteroids s))"
  by (simp_all add: generateAsteroid_def Let_def drawn_def)

lemma fold_generateAsteroid:
  "players (fold (generateAsteroid rnd) xs s) = players s \<and>
   projectiles (fold (generateAsteroid rnd) xs s) = projectiles s \<and>
   particles (fold (generateAsteroid rnd) xs s) = particles s \<and>
   powerUps (fold (generateAsteroid rnd) xs s) = powerUps s \<and>
   lastUpdate (fold (generateAsteroid rnd) xs s) = lastUpdate s \<and>
   gameTime (fold (generateAsteroid rnd) xs s) = gameTime s \<and>
   length (asteroids (fold (generateAsteroid rnd) xs s)) = length (asteroids s) + length xs"
  by (induction xs arbitrary: s) simp_all

lemma generateAsteroids_frame [simp]:
  "players (generateAsteroids rnd s) = players s" "projectiles (generateAsteroids rnd s) = projectiles s"
  "particles (generateAsteroids rnd s) = particles s" "powerUps (generateAsteroids rnd s) = powerUps s"
  "lastUpdate (generateAsteroids rnd s) = lastUpdate s" "gameTime (generateAsteroids rnd s) = gameTime s"
  "length (asteroids (generateAsteroids rnd s)) = length (asteroids s) + 25"
  using fold_generateAsteroid[of rnd "[0..<25]" s] by (simp_all add: generateAsteroids_def)

lemma asteroids_update:
  "asteroids (update rnd now dateNow s) =
     map (updateAsteroid ((now - lastUpdate s) / 1000) (canvas_width s) (canvas_height s)) (asteroids s)"
  by (simp add: update_def Let_def updateAsteroids_def)

lemma velocity_updateAsteroid [simp]: "velocity (updateAsteroid dt w h a) = velocity a"
  by (simp add: updateAsteroid_def Let_def)

text \<open>What input handling leaves alone.\<close>

lemma playerField_modifyPlayer:
  assumes "\<And>p. g (f p) = g p"
  shows "playerField g k' (modifyPlayer k f s) = playerField g k' s"
  by (cases "getPlayer k s") (auto simp: playerField_def getPlayer_modifyPlayer assms)

lemma vitals_stages [simp]:
  "playerField vitals k' (inputForward rnd k dt s) = playerField vitals k' s"
  "playerField vitals k' (inputBackward k dt s) = playerField vitals k' s"
  "playerField vitals k' (inputRotate k dt s) = playerField vitals k' s"
  "playerField vitals k' (inputBoost rnd k dt s) = playerField vitals k' s"
  "playerField vitals k' (handleShooting rnd dn s) = playerField vitals k' s"
  "playerField vitals k' (inputShoot rnd dn s) = playerField vitals k' s"
  "playerField vitals k' (inputAim k s) = playerField vitals k' s"
proof -
  show "playerField vitals k' (inputForward rnd k dt s) = playerField vitals k' s"
    by (auto simp: inputForward_def Let_def playerField_def getPlayer_putPlayer vitals_def split: option.splits)
  show "playerField vitals k' (inputBackward k dt s) = playerField vitals k' s"
    by (simp add: inputBackward_def playerField_modifyPlayer vitals_def)
  show "playerField vitals k' (inputRotate k dt s) = playerField vitals k' s"
    by (simp add: inputRotate_def Let_def playerField_modifyPlayer vitals_def)
  show "playerField vitals k' (inputBoost rnd k dt s) = playerField vitals k' s"
    by (auto simp: inputBoost_def Let_def playerField_def getPlayer_putPlayer vitals_def split: option.splits)
  show sh: "\<And>s. playerField vitals k' (handleShooting rnd dn s) = playerField vitals k' s"
    by (auto simp: handleShooting_def Let_def playerField_def getPlayer_putPlayer vitals_def split: option.splits)
  show "playerField vitals k' (inputShoot rnd dn s) = playerField vitals k' s"
    by (simp add: inputShoot_def sh)
  show "playerField vitals k' (inputAim k s) = playerField vitals k' s"
    by (simp add: inputAim_def Let_def playerField_modifyPlayer vitals_def)
qed

lemma vitals_handlePlayerInput [simp]:
  "playerField vitals k' (handlePlayerInput rnd dn k dt s) = playerField vitals k' s"
  by (simp add: handlePlayerInput_def)

lemma others_stages:
  assumes "k' \<noteq> k"
  shows "getPlayer k' (inputForward rnd k dt s) = getPlayer k' s"
    "getPlayer k' (inputBackward k dt s) = getPlayer k' s"
    "getPlayer k' (inputRotate k dt s) = getPlayer k' s"
    "getPlayer k' (inputBoost rnd k dt s) = getPlayer k' s"
    "getPlayer k' (inputAim k s) = getPlayer k' s"
  using assms
  by (simp_all add: inputForward_def inputBackward_def inputRotate_def inputBoost_def inputAim_def
        Let_def getPlayer_putPlayer getPlayer_modifyPlayer split: option.splits)

lemma others_handleShooting:
  assumes "k' \<noteq> localPlayerId s"
  shows "getPlayer k' (handleShooting rnd dn s) = getPlayer k' s"
  using assms by (simp add: handleShooting_def Let_def getPlayer_putPlayer split: option.splits)

lemma others_handlePlayerInput:
  assumes "k' \<noteq> localPlayerId s"
  shows "getPlayer k' (handlePlayerInput rnd dn (localPlayerId s) dt s) = getPlayer k' s"
  using assms
  by (simp add: handlePlayerInput_def inputShoot_def others_stages others_handleShooting)

lemma arena_local: "localPlayerId arena = ''a''"
  by (simp add: arena_def hostOnly_def addDebugPlayer_def initializeAsHost_def createPlayer_def initialFields_def)

lemma empty_updates:
  "projectiles s = [] \<Longrightarrow> updateProjectiles dt s = s"
  "powerUps s = [] \<Longrightarrow> updatePowerUps rnd dt s = s"
  "asteroids s = [] \<Longrightarrow> updateAsteroids dt s = s"
  "particles s = [] \<Longrightarrow> updateParticles dt s = s"
  by (simp_all add: updateProjectiles_def updatePowerUps_def updateAsteroids_def updateParticles_def)

lemma botOnly_b: "getPlayer ''b'' botOnly = Some
   \<lparr>ident = PlayerIdent ''b'', position = vec 700 300, velocity = vec 0 0, rotation = 0,
          health = 100, maxHealth = 100, active = True,
          playerId = ''b'', score = 0, kills = 0, deaths = 0,
          shield = 50, maxShield = 100, energy = 100, maxEnergy = 100,
          weaponCooldown = 0, boostCooldown = 0\<rparr>"
  by (simp add: botOnly_def addDebugPlayer_def createPlayer_def initialFields_def getPlayer_def
        modifyPlayer_def weakened_def)

lemma botOnly_fields [simp]:
  "localPlayerId botOnly = []" "projectiles botOnly = []" "powerUps botOnly = []"
  "asteroids botOnly = []" "particles botOnly = []" "isHost botOnly = False"
  "map fst (players botOnly) = [''b'']" "lastUpdate botOnly = 0" "gameTime botOnly = 0"
  by (simp_all add: botOnly_def addDebugPlayer_def createPlayer_def initialFields_def modifyPlayer_def)

lemma botOnly_local: "getPlayer [] botOnly = None"
  by (simp add: botOnly_def addDebugPlayer_def createPlayer_def initialFields_def getPlayer_def
        modifyPlayer_def)

lemma idle_tick:
  fixes s :: GameEngine
  assumes "getPlayer (localPlayerId s) s = Some p" "keys s = {}" "\<not> mouse_pressed s"
  shows "getPlayer (localPlayerId s) (updatePlayers rnd dn dt s) =
           Some (updatePlayer dt (canvas_width s) (canvas_height s)
                   (p\<lparr>rotation := atan2 (mouse_y s - vec_y (position p))
                                          (mouse_x s - vec_x (position p))\<rparr>))"
  using assms handlePlayerInput_boost[of "localPlayerId s" s p _ rnd dn dt]
  by (simp add: getPlayer_updatePlayers)

lemma fired_fields [simp]:
  "localPlayerId (handleShooting zeroDraws 0 hostOnly) = ''a''"
  "keys (handleShooting zeroDraws 0 hostOnly) = {}"
  "mouse_pressed (handleShooting zeroDraws 0 hostOnly) = False"
  by simp_all

lemma movement_keeps:
  fixes s :: GameEngine
  assumes "getPlayer k s = Some player"
  shows "\<exists>q. getPlayer k (inputRotate k dt (inputBackward k dt (inputForward rnd k dt s))) = Some q \<and>
             energy q = energy player \<and> boostCooldown q = boostCooldown player \<and>
             position q = position player"
  using assms
  by (auto simp: inputForward_def inputBackward_def inputRotate_def Let_def
        getPlayer_putPlayer getPlayer_modifyPlayer)

lemma movement_idle:
  fixes s :: GameEngine
  assumes "''KeyW'' \<notin> keys s" "''KeyS'' \<notin> keys s" "''KeyA'' \<notin> keys s" "''KeyD'' \<notin> keys s"
  shows "inputRotate k dt (inputBackward k dt (inputForward rnd k dt s)) = s"
  using assms by (simp add: inputForward_def inputBackward_def inputRotate_def split: option.splits)

text \<open>
  Where an asteroid and a player are after their update: the position integrated at 60
  times the elapsed time, from the velocity before any drag, and then wrapped.
\<close>

lemma position_updateAsteroid:
  "vec_x (position (updateAsteroid dt w h a)) =
     (let px = vec_x (position a) + vec_x (velocity a) * dt * 60
      in if px < - sizeA a then w + sizeA a else if px > w + sizeA a then - sizeA a else px)"
  "vec_y (position (updateAsteroid dt w h a)) =
     (let py = vec_y (position a) + vec_y (velocity a) * dt * 60
      in if py < - sizeA a then h + sizeA a else if py > h + sizeA a then - sizeA a else py)"
  by (simp_all add: updateAsteroid_def Let_def)

lemma position_updatePlayer:
  "vec_x (position (updatePlayer dt w h p)) =
     (let px = vec_x (position p) + vec_x (velocity p) * dt * 60
      in if px < 0 then w else if px > w then 0 else px)"
  "vec_y (position (updatePlayer dt w h p)) =
     (let py = vec_y (position p) + vec_y (velocity p) * dt * 60
      in if py < 0 then h else if py > h then 0 else py)"
  by (simp_all add: updatePlayer_def Let_def)

lemma velocity_generateAsteroid_zero:
  "map velocity (asteroids (generateAsteroid zeroDraws i s)) =
     map velocity (asteroids s) @ [vec (- 1) (- 1)]"
  by (simp add: generateAsteroid_def Let_def zeroDraws_def)

lemma velocity_fold_generateAsteroid_zero:
  "map velocity (asteroids (fold (generateAsteroid zeroDraws) xs s)) =
     map velocity (asteroids s) @ replicate (length xs) (vec (- 1) (- 1))"
  by (induction xs arbitrary: s) (simp_all add: velocity_generateAsteroid_zero replicate_app_Cons_same)

lemma constructed_asteroids:
  "map velocity (asteroids constructed) = replicate 25 (vec (- 1) (- 1))"
proof -
  have "asteroids constructed = asteroids (generateAsteroids zeroDraws (initialFields 800 600))"
    by (simp add: constructed_def)
  then show ?thesis
    using velocity_fold_generateAsteroid_zero[of "[0..<25]" "initialFields 800 600"]
    by (simp add: generateAsteroids_def initialFields_def)
qed

section \<open>The invariant of a run\<close>

lemma stateOk_frame:
  "players s' = players s \<Longrightarrow> projectiles s' = projectiles s \<Longrightarrow> powerUps s' = powerUps s \<Longrightarrow>
   stateOk s' = stateOk s"
  by (simp add: stateOk_def allPlayersBounded_def)

lemma allPlayersBounded_updates [simp]:
  "allPlayersBounded (s\<lparr>projectiles := prs\<rparr>) = allPlayersBounded s"
  "allPlayersBounded (s\<lparr>powerUps := pus\<rparr>) = allPlayersBounded s"
  by (simp_all add: allPlayersBounded_def)

lemma stateOk_emitters [simp]:
  "stateOk (addEngineParticles rnd p s) = stateOk s"
  "stateOk (addBoostParticles rnd p s) = stateOk s"
  "stateOk (addMuzzleFlashParticles rnd p s) = stateOk s"
  "stateOk (addHitParticles rnd pos s) = stateOk s"
  "stateOk (addExplosionParticles rnd pos c s) = stateOk s"
  "stateOk (addCollectionParticles rnd pos c' s) = stateOk s"
  "stateOk (drawn n s) = stateOk s"
  by (rule stateOk_frame; simp)+

lemma stateOk_updates [simp]:
  "stateOk (s\<lparr>particles := pts\<rparr>) = stateOk s" "stateOk (s\<lparr>rng := n\<rparr>) = stateOk s"
  "stateOk (s\<lparr>sent := ms\<rparr>) = stateOk s" "stateOk (s\<lparr>asteroids := asts\<rparr>) = stateOk s"
  "stateOk (s\<lparr>keys := ks\<rparr>) = stateOk s" "stateOk (s\<lparr>mouse_pressed := b\<rparr>) = stateOk s"
  "stateOk (s\<lparr>mouse_x := x\<rparr>) = stateOk s" "stateOk (s\<lparr>mouse_y := y\<rparr>) = stateOk s"
  "stateOk (s\<lparr>gameTime := t\<rparr>) = stateOk s" "stateOk (s\<lparr>lastUpdate := t\<rparr>) = stateOk s"
  "stateOk (s\<lparr>hasCallback := b\<rparr>) = stateOk s" "stateOk (s\<lparr>isHost := b\<rparr>) = stateOk s"
  "stateOk (s\<lparr>localPlayerId := k\<rparr>) = stateOk s" "stateOk (s\<lparr>debugMode := b\<rparr>) = stateOk s"
  "stateOk (s\<lparr>debugTimers := ts\<rparr>) = stateOk s"
  by (simp_all add: stateOk_def allPlayersBounded_def)

lemma bounded_map_entry:
  assumes "list_all (\<lambda>(k, p). playerBounds p) xs" "\<And>p. playerBounds p \<Longrightarrow> playerBounds (f p)"
  shows "list_all (\<lambda>(k, p). playerBounds p) (AList.map_entry k f xs)"
  using assms(1) by (induction xs) (auto simp: assms(2))

lemma bounded_update:
  assumes "list_all (\<lambda>(k, p). playerBounds p) xs" "playerBounds q"
  shows "list_all (\<lambda>(k, p). playerBounds p) (AList.update k q xs)"
  using assms by (induction xs) auto

lemma map_entry_twice: "AList.map_entry k f (AList.map_entry k g xs) = AList.map_entry k (f \<circ> g) xs"
  by (induction xs) auto

lemma stateOk_putPlayer: "stateOk s \<Longrightarrow> playerBounds p \<Longrightarrow> stateOk (putPlayer k p s)"
  by (simp add: stateOk_def allPlayersBounded_def putPlayer_def bounded_map_entry)

lemma stateOk_modifyPlayer:
  "stateOk s \<Longrightarrow> (\<And>p. playerBounds p \<Longrightarrow> playerBounds (f p)) \<Longrightarrow> stateOk (modifyPlayer k f s)"
  by (simp add: stateOk_def allPlayersBounded_def modifyPlayer_def bounded_map_entry)

lemma stateOk_getPlayer: "stateOk s \<Longrightarrow> getPlayer k s = Some p \<Longrightarrow> playerBounds p"
  by (auto simp: stateOk_def allPlayersBounded_def getPlayer_def list_all_iff dest!: map_of_SomeD)

lemma stateOk_projectiles:
  "stateOk (s\<lparr>projectiles := prs\<rparr>) =
     (allPlayersBounded s \<and> list_all (\<lambda>pr. 0 \<le> damage pr) prs \<and> list_all (\<lambda>pu. 0 \<le> pvalue pu) (powerUps s))"
  by (simp add: stateOk_def allPlayersBounded_def)

lemma stateOk_spliceProjectile: "stateOk s \<Longrightarrow> stateOk (spliceProjectile i s)"
  by (auto simp: stateOk_def allPlayersBounded_def spliceProjectile_def list_all_iff
      dest: in_set_takeD in_set_dropD)

text \<open>Input and shooting.\<close>

lemma stateOk_handleShooting: "stateOk s \<Longrightarrow> stateOk (handleShooting rnd dn s)"
proof (cases "getPlayer (localPlayerId s) s")
  case None
  then show "stateOk s \<Longrightarrow> ?thesis" by (simp add: handleShooting_def)
next
  case (Some player)
  assume ok: "stateOk s"
  then have b: "playerBounds player" using Some by (rule stateOk_getPlayer)
  show ?thesis
  proof (cases "weaponCooldown player > 0 \<or> energy player < 10")
    case True
    then show ?thesis using ok Some by (auto simp: handleShooting_def)
  next
    case False
    then have "playerBounds (player\<lparr>weaponCooldown := 0.2, energy := energy player - 10\<rparr>)"
      using b by (simp add: playerBounds_def)
    then show ?thesis using Some False ok[unfolded stateOk_def]
      by (simp add: handleShooting_def Let_def stateOk_putPlayer stateOk_projectiles)
  qed
qed


lemma stateOk_inputForward: "stateOk s \<Longrightarrow> stateOk (inputForward rnd k dt s)"
  by (auto simp: inputForward_def Let_def playerBounds_def split: option.splits
      intro!: stateOk_putPlayer dest: stateOk_getPlayer)

lemma stateOk_inputBackward: "stateOk s \<Longrightarrow> stateOk (inputBackward k dt s)"
  by (auto simp: inputBackward_def playerBounds_def intro!: stateOk_modifyPlayer)

lemma stateOk_inputRotate: "stateOk s \<Longrightarrow> stateOk (inputRotate k dt s)"
  by (auto simp: inputRotate_def Let_def playerBounds_def intro!: stateOk_modifyPlayer)

lemma stateOk_inputBoost: "stateOk s \<Longrightarrow> stateOk (inputBoost rnd k dt s)"
  by (auto simp: inputBoost_def Let_def playerBounds_def split: option.splits
      intro!: stateOk_putPlayer dest: stateOk_getPlayer)

lemma stateOk_inputShoot: "stateOk s \<Longrightarrow> stateOk (inputShoot rnd dn s)"
  by (simp add: inputShoot_def stateOk_handleShooting)

lemma stateOk_inputAim: "stateOk s \<Longrightarrow> stateOk (inputAim k s)"
  by (auto simp: inputAim_def Let_def playerBounds_def intro!: stateOk_modifyPlayer)

lemma stateOk_handlePlayerInput: "stateOk s \<Longrightarrow> stateOk (handlePlayerInput rnd dn k dt s)"
  by (simp add: handlePlayerInput_def stateOk_inputForward stateOk_inputBackward stateOk_inputRotate
        stateOk_inputBoost stateOk_inputShoot stateOk_inputAim)

text \<open>The updates of a tick.\<close>

lemma playerBounds_updatePlayer:
  "playerBounds p \<Longrightarrow> 0 \<le> dt \<Longrightarrow> playerBounds (updatePlayer dt w h p)"
  by (simp add: playerBounds_def updatePlayer_fields)

lemma stateOk_updatePlayers:
  assumes "stateOk s" "0 \<le> dt"
  shows "stateOk (updatePlayers rnd dn dt s)"
proof (cases "getPlayer (localPlayerId s) s")
  case None
  then show ?thesis using assms by (simp add: updatePlayers_def)
next
  case (Some lp)
  let ?s1 = "handlePlayerInput rnd dn (localPlayerId s) dt s"
  have ok1: "stateOk ?s1" using assms(1) by (rule stateOk_handlePlayerInput)
  have "list_all (\<lambda>(k, p). playerBounds p)
          (map (\<lambda>(k, player). (k, updatePlayer dt (canvas_width ?s1) (canvas_height ?s1) player)) (players ?s1))"
    using ok1 assms(2)
    by (auto simp: stateOk_def allPlayersBounded_def list_all_iff intro: playerBounds_updatePlayer)
  then show ?thesis using Some ok1
    by (simp add: updatePlayers_def Let_def stateOk_def allPlayersBounded_def)
qed

lemma stateOk_updateProjectiles: "stateOk s \<Longrightarrow> stateOk (updateProjectiles dt s)"
  by (auto simp: updateProjectiles_def stateOk_projectiles stateOk_def list_all_iff updateProjectile_def)

lemma stateOk_updatePowerUp:
  assumes "stateOk s" "i < length (powerUps s)"
  shows "stateOk (updatePowerUp rnd dt i s)"
proof -
  have v: "0 \<le> pvalue (powerUps s ! i)"
    using assms by (simp add: stateOk_def list_all_length)
  have "list_all (\<lambda>pu. 0 \<le> pvalue pu) ((powerUps s)[i := q])" if "pvalue q = pvalue (powerUps s ! i)" for q
    using assms v that by (auto simp: stateOk_def list_all_iff dest!: set_update_subset_insert[THEN subsetD])
  then show ?thesis using assms
    by (simp add: updatePowerUp_def Let_def stateOk_def allPlayersBounded_def split: prod.splits if_splits)
qed

lemma stateOk_updatePowerUps: "stateOk s \<Longrightarrow> stateOk (updatePowerUps rnd dt s)"
  unfolding updatePowerUps_def by (rule forEach_inv) (simp_all add: stateOk_updatePowerUp)

lemma stateOk_updateAsteroids [simp]: "stateOk (updateAsteroids dt s) = stateOk s"
  by (simp add: updateAsteroids_def)

lemma stateOk_updateParticles [simp]: "stateOk (updateParticles dt s) = stateOk s"
  by (simp add: updateParticles_def)

lemma stateOk_sendNetworkUpdate [simp]: "stateOk (sendNetworkUpdate s) = stateOk s"
  by (simp add: sendNetworkUpdate_def split: option.splits)


text \<open>Collisions.\<close>

lemma players_handlePlayerDestroyed:
  fixes s :: GameEngine
  assumes "getPlayer k s = Some player"
  shows "players (handlePlayerDestroyed rnd k killerId s) =
           AList.map_entry killerId
             (\<lambda>killer. killer\<lparr>kills := kills killer + 1, score := score killer + 100\<rparr>)
             (AList.map_entry k
                (\<lambda>_. player\<lparr>deaths := deaths player + 1, health := maxHealth player,
                              shield := maxShield player, energy := maxEnergy player,
                              position := vec (rnd (rng s) * canvas_width s)
                                              (rnd (rng s + 1) * canvas_height s)\<rparr>)
                (players s))"
  using assms by (simp add: handlePlayerDestroyed_def Let_def modifyPlayer_def putPlayer_def)

lemma stateOk_handlePlayerHit:
  assumes ok: "stateOk s" and dmg: "0 \<le> damage pr"
  shows "stateOk (handlePlayerHit rnd k pr s)"
proof (cases "getPlayer k s")
  case None
  then show ?thesis using ok by (simp add: handlePlayerHit_def)
next
  case (Some player)
  have b: "playerBounds player" using ok Some by (rule stateOk_getPlayer)
  define sd where "sd = (if shield player > 0 then min (shield player) (damage pr) else 0)"
  define hl where "hl = (if damage pr - sd > 0 then health player - (damage pr - sd) else health player)"
  define p where "p = player\<lparr>shield := shield player - sd, health := hl\<rparr>"
  define s1 where "s1 = addHitParticles rnd (position p) (putPlayer k p s)"
  have eq: "handlePlayerHit rnd k pr s =
              (if hl \<le> 0 then handlePlayerDestroyed rnd k (ownerId pr) s1 else s1)"
    using Some by (simp add: handlePlayerHit_def Let_def sd_def hl_def p_def s1_def)
  have sd: "0 \<le> sd" "sd \<le> shield player" "sd \<le> damage pr"
    using b dmg by (auto simp: sd_def playerBounds_def)
  have hl: "hl \<le> health player" using sd by (simp add: hl_def)
  show ?thesis
  proof (cases "hl \<le> 0")
    case False
    then have "playerBounds p" using b sd hl by (simp add: p_def playerBounds_def)
    then show ?thesis using False ok by (simp add: eq s1_def stateOk_putPlayer)
  next
    case True
    have g1: "getPlayer k s1 = Some p" using Some by (simp add: s1_def getPlayer_putPlayer)
    let ?p' = "p\<lparr>deaths := deaths p + 1, health := maxHealth p,
                      shield := maxShield p, energy := maxEnergy p,
                      position := vec (rnd (rng s1) * canvas_width s1)
                                      (rnd (rng s1 + 1) * canvas_height s1)\<rparr>"
    let ?award = "\<lambda>killer::Player. killer\<lparr>kills := kills killer + 1, score := score killer + 100\<rparr>"
    have pl: "players (handlePlayerDestroyed rnd k (ownerId pr) s1) =
                AList.map_entry (ownerId pr) ?award (AList.map_entry k (\<lambda>_. ?p') (players s))"
      unfolding players_handlePlayerDestroyed[OF g1]
      by (simp add: s1_def putPlayer_def map_entry_twice comp_def)
    have bp: "playerBounds ?p'" using b by (simp add: p_def playerBounds_def)
    have "list_all (\<lambda>(k, p). playerBounds p) (players (handlePlayerDestroyed rnd k (ownerId pr) s1))"
      unfolding pl using ok bp
      by (intro bounded_map_entry) (simp_all add: stateOk_def allPlayersBounded_def playerBounds_def)
    then show ?thesis using True ok
      by (simp add: eq stateOk_def allPlayersBounded_def s1_def)
  qed
qed

lemma stateOk_playerProjectile:
  assumes "stateOk s" "i < length (projectiles s)"
  shows "stateOk (playerProjectile rnd k i s)"
proof -
  have "0 \<le> damage (projectiles s ! i)"
    using assms by (simp add: stateOk_def list_all_length)
  then show ?thesis using assms(1)
    by (simp add: playerProjectile_def Let_def stateOk_spliceProjectile stateOk_handlePlayerHit
          split: option.splits)
qed

lemma stateOk_handlePowerUpCollection:
  assumes ok: "stateOk s" and i: "i < length (powerUps s)"
  shows "stateOk (handlePowerUpCollection rnd k i s)"
proof (cases "getPlayer k s")
  case None
  then show ?thesis using ok by (simp add: handlePowerUpCollection_def)
next
  case (Some player)
  have b: "playerBounds player" using ok Some by (rule stateOk_getPlayer)
  have v: "0 \<le> pvalue (powerUps s ! i)"
    using ok i by (simp add: stateOk_def list_all_length)
  define p where "p = (case ptype (powerUps s ! i) of
                      Health \<Rightarrow> player\<lparr>health := min (maxHealth player) (health player + pvalue (powerUps s ! i))\<rparr>
                    | Shield \<Rightarrow> player\<lparr>shield := min (maxShield player) (shield player + pvalue (powerUps s ! i))\<rparr>
                    | Energy \<Rightarrow> player\<lparr>energy := min (maxEnergy player) (energy player + pvalue (powerUps s ! i))\<rparr>
                    | Weapon \<Rightarrow> player\<lparr>score := score player + pvalue (powerUps s ! i)\<rparr>
                    | Undefined \<Rightarrow> player)"
  have bp: "playerBounds p"
    using b v by (cases "ptype (powerUps s ! i)") (simp_all add: p_def playerBounds_def)
  have pu: "list_all (\<lambda>pu. 0 \<le> pvalue pu) ((powerUps s)[i := q])" if "pvalue q = pvalue (powerUps s ! i)" for q
    using ok v that by (auto simp: stateOk_def list_all_iff dest!: set_update_subset_insert[THEN subsetD])
  have "stateOk (putPlayer k p s)" using ok bp by (rule stateOk_putPlayer)
  then show ?thesis using Some pu
    by (simp add: handlePowerUpCollection_def Let_def p_def[symmetric] stateOk_def allPlayersBounded_def putPlayer_def)
qed

lemma stateOk_playerPowerUp:
  assumes "stateOk s" "i < length (powerUps s)"
  shows "stateOk (playerPowerUp rnd k i s)"
  using assms by (simp add: playerPowerUp_def Let_def stateOk_handlePowerUpCollection split: option.splits)

lemma stateOk_playerCollisions: "stateOk s \<Longrightarrow> stateOk (playerCollisions rnd k s)"
  unfolding playerCollisions_def
  by (rule forEach_inv, simp add: stateOk_playerPowerUp)
     (rule forEach_inv, simp_all add: stateOk_playerProjectile)

lemma stateOk_projectileAsteroids: "stateOk s \<Longrightarrow> stateOk (projectileAsteroids rnd i s)"
  unfolding projectileAsteroids_def Let_def
  by (rule fold_inv) (simp_all add: stateOk_spliceProjectile)

lemma stateOk_checkCollisions: "stateOk s \<Longrightarrow> stateOk (checkCollisions rnd s)"
  unfolding checkCollisions_def
  by (rule forEach_inv, simp add: stateOk_projectileAsteroids)
     (rule fold_inv, simp_all add: stateOk_playerCollisions)

lemma stateOk_update:
  assumes "stateOk s" "lastUpdate s \<le> now"
  shows "stateOk (update rnd now dn s)"
proof -
  have "0 \<le> (now - lastUpdate s) / 1000" using assms(2) by simp
  then show ?thesis using assms(1)
    by (simp add: update_def Let_def stateOk_checkCollisions stateOk_updatePowerUps
          stateOk_updateProjectiles stateOk_updatePlayers)
qed


text \<open>The session.\<close>

lemma stateOk_createPlayer:
  assumes "stateOk s"
  shows "stateOk (createPlayer pid name pos s)"
proof -
  have "playerBounds
         \<lparr>ident = PlayerIdent pid, position = pos, velocity = vec 0 0, rotation = 0,
          health = 100, maxHealth = 100, active = True,
          playerId = pid, score = 0, kills = 0, deaths = 0,
          shield = 100, maxShield = 100, energy = 100, maxEnergy = 100,
          weaponCooldown = 0, boostCooldown = 0\<rparr>"
    by (simp add: playerBounds_def)
  then show ?thesis using assms
    by (simp add: createPlayer_def stateOk_def allPlayersBounded_def bounded_update)
qed

lemma stateOk_debugInterval:
  assumes ok: "stateOk s"
  shows "stateOk (debugInterval rnd dn pid s)"
proof (cases "getPlayer pid s")
  case None
  then show ?thesis using ok by (simp add: debugInterval_def)
next
  case (Some debugPlayer)
  have b: "playerBounds debugPlayer" using ok Some by (rule stateOk_getPlayer)
  have "playerBounds (debugPlayer\<lparr>velocity := v\<rparr>)" for v
    using b by (simp add: playerBounds_def)
  then have "stateOk (putPlayer pid (debugPlayer\<lparr>velocity := v\<rparr>) s)" for v
    using ok by (simp add: stateOk_putPlayer)
  then show ?thesis using Some
    by (simp add: debugInterval_def Let_def stateOk_projectiles) (simp add: stateOk_def)
qed

lemma pvalue_generatePowerUp:
  "rndOk rnd \<Longrightarrow> list_all (\<lambda>pu. 0 \<le> pvalue pu) (powerUps s) \<Longrightarrow>
   list_all (\<lambda>pu. 0 \<le> pvalue pu) (powerUps (generatePowerUp rnd i s))"
proof -
  assume r: "rndOk rnd" and a: "list_all (\<lambda>pu. 0 \<le> pvalue pu) (powerUps s)"
  have "0 \<le> rnd (rng s + 3)" using r by (simp add: rndOk_def)
  then have "0 \<le> 25 + rnd (rng s + 3) * 25" by simp
  then show ?thesis using a by (simp add: generatePowerUp_def Let_def)
qed

lemma stateOk_generatePowerUp: "rndOk rnd \<Longrightarrow> stateOk s \<Longrightarrow> stateOk (generatePowerUp rnd i s)"
  by (simp add: stateOk_def allPlayersBounded_def pvalue_generatePowerUp)

lemma stateOk_generatePowerUps:
  assumes "rndOk rnd" "stateOk s"
  shows "stateOk (generatePowerUps rnd s)"
  unfolding generatePowerUps_def using assms(2)
  by (rule fold_inv[rotated]) (simp add: stateOk_generatePowerUp assms(1))

lemma stateOk_resetGame: "rndOk rnd \<Longrightarrow> stateOk s \<Longrightarrow> stateOk (resetGame rnd s)"
  unfolding resetGame_def
  by (rule stateOk_generatePowerUps) (simp_all add: stateOk_def allPlayersBounded_def)

lemma stateOk_constructor:
  assumes "rndOk rnd" "constructor rnd hasCtx w h = Some s"
  shows "stateOk s" "lastUpdate s = 0"
proof -
  have s: "s = generatePowerUps rnd (generateAsteroids rnd (initialFields w h))"
    using assms(2) by (simp add: constructor_def split: if_splits)
  have "stateOk (generateAsteroids rnd (initialFields w h))"
    by (simp add: stateOk_def allPlayersBounded_def) (simp add: initialFields_def)
  then show "stateOk s" unfolding s using assms(1) by (simp add: stateOk_generatePowerUps)
  show "lastUpdate s = 0" unfolding s by (simp add: initialFields_def)
qed

lemma stateOk_step:
  assumes "stateOk s" "rndOk rnd" "clockOk (lastUpdate s) (ev # evs)"
  shows "stateOk (step rnd ev s)"
  using assms
  by (cases ev)
     (simp_all add: initializeAsHost_def initializeAsClient_def addDebugPlayer_def
        stateOk_createPlayer stateOk_debugInterval stateOk_handleShooting startGame_def
        stateOk_resetGame stateOk_update)

lemma clockOk_step:
  assumes "clockOk (lastUpdate s) (ev # evs)"
  shows "clockOk (lastUpdate (step rnd ev s)) evs"
  using assms
  by (cases ev)
     (simp_all add: initializeAsHost_def initializeAsClient_def addDebugPlayer_def createPlayer_def
        startGame_def resetGame_def)

lemma stateOk_run:
  assumes "rndOk rnd"
  shows "stateOk s \<Longrightarrow> clockOk (lastUpdate s) evs \<Longrightarrow> stateOk (run rnd evs s)"
proof (induction evs arbitrary: s)
  case Nil
  then show ?case by (simp add: run_def)
next
  case (Cons ev evs)
  have a: "stateOk (step rnd ev s)" using Cons.prems assms by (auto intro: stateOk_step)
  have b: "clockOk (lastUpdate (step rnd ev s)) evs" using Cons.prems by (auto intro: clockOk_step)
  have "run rnd (ev # evs) s = run rnd evs (step rnd ev s)" by (simp add: run_def)
  then show ?case using Cons.IH[OF a b] by simp
qed

section \<open>The claims\<close>

text \<open>
  C1. Start from the engine the constructor returns and let any sequence of events reach
  it: the creation of the host, the client or a debug player, the timer of a debug player,
  key and mouse events, start, reset, and any number of update ticks. If every random draw
  lies between 0 (included) and 1 (excluded) and the clock readings never decrease, then
  after every event, so at the end of every tick, each player in the store has its health
  between 0 and its maximum, and so its shield and its energy. Messages from the network are
  not among the events: \<^verbatim>\<open>handleNetworkUpdate\<close> stores the values a message carries.
\<close>

theorem resource_bounds_invariant:
  assumes "rndOk rnd"
    and "constructor rnd True w h = Some s0"
    and "clockOk 0 evs"
  shows "allPlayersBounded (run rnd evs s0)"
proof -
  have "stateOk s0" "lastUpdate s0 = 0" using assms(1,2) by (rule stateOk_constructor)+
  then have "stateOk (run rnd evs s0)" using assms by (simp add: stateOk_run)
  then show ?thesis by (simp add: stateOk_def)
qed


theorem resource_bounds_invariant_witness:
  "rndOk zeroDraws \<and>
   constructor zeroDraws True 800 600 =
     Some (generatePowerUps zeroDraws (generateAsteroids zeroDraws (initialFields 800 600))) \<and>
   clockOk 0 [InitializeAsHost ''a'', AddDebugPlayer ''b'', StartGame 5, KeyDown ''Space'',
              MouseDown 0 7, Update 21 8, DebugInterval ''b'' 9, MouseUp 0, Update 38 10] \<and>
   allPlayersBounded
     (run zeroDraws
        [InitializeAsHost ''a'', AddDebugPlayer ''b'', StartGame 5, KeyDown ''Space'',
         MouseDown 0 7, Update 21 8, DebugInterval ''b'' 9, MouseUp 0, Update 38 10]
        (generatePowerUps zeroDraws (generateAsteroids zeroDraws (initialFields 800 600))))"
  using resource_bounds_invariant[of zeroDraws 800 600
      "generatePowerUps zeroDraws (generateAsteroids zeroDraws (initialFields 800 600))"
      "[InitializeAsHost ''a'', AddDebugPlayer ''b'', StartGame 5, KeyDown ''Space'',
        MouseDown 0 7, Update 21 8, DebugInterval ''b'' 9, MouseUp 0, Update 38 10]"]
  by (simp add: rndOk_def zeroDraws_def constructor_def)

text \<open>
  C2. When a projectile hits a player (it is at a distance below 20 and its owner is not the
  player), the shield absorbs the damage up to what is left of it and only the remainder is
  taken from the health. This is the hit that leaves the health above 0; the hit that does
  not is the subject of C3. The instance of the specification, a shield of 30 and a health
  of 100 hit with a damage of 50, ends with a shield of 0 and a health of 80.
\<close>

theorem shield_before_health:
  fixes s :: GameEngine
  assumes "getPlayer k s = Some player"
    and "pIndex < length (projectiles s)"
    and "projectiles s ! pIndex = projectile"
    and "ownerId projectile \<noteq> playerId player"
    and "getDistance (position player) (position projectile) < 20"
    and "0 \<le> shield player" and "0 \<le> damage projectile"
    and "absorbed = min (shield player) (damage projectile)"
    and "0 < health player - (damage projectile - absorbed)"
  shows "getPlayer k (playerProjectile rnd k pIndex s) =
           Some (player\<lparr>shield := shield player - absorbed,
                        health := health player - (damage projectile - absorbed)\<rparr>)"
  using assms handlePlayerHit_nonlethal[of k s player projectile rnd]
  by (simp add: playerProjectile_def Let_def)

theorem shield_before_health_witness:
  "map_option (\<lambda>p. (shield p, health p))
     (getPlayer ''a'' (playerProjectile zeroDraws ''a'' 0
        ((modifyPlayer ''a'' (weakened 30 100) arena)\<lparr>projectiles := [shot 1 ''b'' (vec 100 300) 50]\<rparr>)))
     = Some (0, 80)"
  using shield_before_health[of "''a''"
      "(modifyPlayer ''a'' (weakened 30 100) arena)\<lparr>projectiles := [shot 1 ''b'' (vec 100 300) 50]\<rparr>"
      "weakened 30 100 (the (getPlayer ''a'' arena))" 0 "shot 1 ''b'' (vec 100 300) 50" 30 zeroDraws]
  by (simp add: getPlayer_modifyPlayer arena_a weakened_def shot_def getDistance_def)

text \<open>
  C3. A hit that drives the health to 0 or below restores health, shield and energy to their
  maxima, adds one death, moves the victim to the position given by the next two random
  draws, gives the owner of the projectile, when it is in the store, one kill and 100 points,
  and leaves the keys of the store as they were: the victim is still there.
\<close>

theorem lethal_hit_respawns:
  fixes s :: GameEngine
  assumes "getPlayer k s = Some player" and "playerId player = k"
    and "pIndex < length (projectiles s)"
    and "projectiles s ! pIndex = projectile"
    and "ownerId projectile \<noteq> playerId player"
    and "getDistance (position player) (position projectile) < 20"
    and "0 \<le> shield player" and "0 \<le> damage projectile"
    and "health player - (damage projectile - min (shield player) (damage projectile)) \<le> 0"
    and "s' = playerProjectile rnd k pIndex s"
  shows "getPlayer k s' =
           Some (player\<lparr>deaths := deaths player + 1,
                        health := maxHealth player,
                        shield := maxShield player,
                        energy := maxEnergy player,
                        position := vec (rnd (rng s + 24) * canvas_width s)
                                        (rnd (rng s + 25) * canvas_height s)\<rparr>) \<and>
         getPlayer (ownerId projectile) s' =
           map_option (\<lambda>killer. killer\<lparr>kills := kills killer + 1, score := score killer + 100\<rparr>)
             (getPlayer (ownerId projectile) s) \<and>
         map fst (players s') = map fst (players s)"
proof -
  let ?p = "player\<lparr>shield := shield player - min (shield player) (damage projectile),
                   health := health player - (damage projectile - min (shield player) (damage projectile))\<rparr>"
  let ?s1 = "addHitParticles rnd (position player) (putPlayer k ?p s)"
  have s': "s' = spliceProjectile pIndex (handlePlayerDestroyed rnd k (ownerId projectile) ?s1)"
    using assms handlePlayerHit_lethal[of k s player projectile rnd]
    by (simp add: playerProjectile_def Let_def)
  have g1: "getPlayer k ?s1 = Some ?p"
    using assms(1) by (simp add: getPlayer_putPlayer)
  have ne: "ownerId projectile \<noteq> k" using assms by simp
  have a: "getPlayer k s' = Some (?p\<lparr>deaths := deaths ?p + 1, health := maxHealth ?p,
                        shield := maxShield ?p, energy := maxEnergy ?p,
                        position := vec (rnd (rng ?s1) * canvas_width ?s1) (rnd (rng ?s1 + 1) * canvas_height ?s1)\<rparr>)"
    unfolding s' using handlePlayerDestroyed_player[OF g1 ne] by simp
  have b: "getPlayer (ownerId projectile) s' =
           map_option (\<lambda>killer. killer\<lparr>kills := kills killer + 1, score := score killer + 100\<rparr>)
             (getPlayer (ownerId projectile) ?s1)"
    unfolding s' using handlePlayerDestroyed_killer[OF g1 ne] by simp
  have c: "getPlayer (ownerId projectile) ?s1 = getPlayer (ownerId projectile) s"
    using ne by (simp add: getPlayer_putPlayer)
  have d: "map fst (players s') = map fst (players s)"
    unfolding s' by simp
  show ?thesis using a b c d by (simp add: add.commute)
qed

theorem lethal_hit_respawns_witness:
  "map_option (\<lambda>p. (health p, shield p, energy p, deaths p, position p))
     (getPlayer ''a'' (playerProjectile zeroDraws ''a'' 0
        ((modifyPlayer ''a'' (weakened 0 20) arena)\<lparr>projectiles := [shot 1 ''b'' (vec 100 300) 25]\<rparr>)))
     = Some (100, 100, 100, 1, vec 0 0) \<and>
   map_option (\<lambda>p. (kills p, score p))
     (getPlayer ''b'' (playerProjectile zeroDraws ''a'' 0
        ((modifyPlayer ''a'' (weakened 0 20) arena)\<lparr>projectiles := [shot 1 ''b'' (vec 100 300) 25]\<rparr>)))
     = Some (1, 100) \<and>
   map fst (players (playerProjectile zeroDraws ''a'' 0
        ((modifyPlayer ''a'' (weakened 0 20) arena)\<lparr>projectiles := [shot 1 ''b'' (vec 100 300) 25]\<rparr>)))
     = [''a'', ''b'']"
  using lethal_hit_respawns[of "''a''"
      "(modifyPlayer ''a'' (weakened 0 20) arena)\<lparr>projectiles := [shot 1 ''b'' (vec 100 300) 25]\<rparr>"
      "weakened 0 20 (the (getPlayer ''a'' arena))" 0 "shot 1 ''b'' (vec 100 300) 25" _ zeroDraws]
  by (simp add: getPlayer_modifyPlayer arena_a arena_b arena_keys weakened_def shot_def getDistance_def zeroDraws_def)


text \<open>
  C4. A fire action adds a projectile exactly when the local player exists, its weapon
  cooldown is at most 0 and its energy at least 10. Then one projectile is appended, with
  damage 25, lifetime 3 and a velocity of length 400 along the heading; the cooldown becomes
  0.2 and the energy drops by 10, so that a second fire action right after changes nothing.
  When the condition fails the state is left as it was.
\<close>

theorem handleShooting_gate:
  fixes s :: GameEngine
  shows "(canFire s \<longrightarrow>
           (\<exists>player pr.
              getPlayer (localPlayerId s) s = Some player \<and>
              projectiles (handleShooting rnd dateNow s) = projectiles s @ [pr] \<and>
              damage pr = 25 \<and> lifetime pr = 3 \<and> ownerId pr = playerId player \<and>
              position pr = position player \<and>
              velocity pr = vec (cos (rotation player) * 400) (sin (rotation player) * 400) \<and>
              getDistance (velocity pr) (vec 0 0) = 400 \<and>
              getPlayer (localPlayerId s) (handleShooting rnd dateNow s) =
                Some (player\<lparr>weaponCooldown := 0.2, energy := energy player - 10\<rparr>) \<and>
              handleShooting rnd dateNow' (handleShooting rnd dateNow s) = handleShooting rnd dateNow s)) \<and>
         (\<not> canFire s \<longrightarrow> handleShooting rnd dateNow s = s)"
proof (cases "getPlayer (localPlayerId s) s")
  case None
  then show ?thesis by (simp add: canFire_def handleShooting_def)
next
  case (Some player)
  show ?thesis
  proof (cases "weaponCooldown player > 0 \<or> energy player < 10")
    case True
    then show ?thesis using Some by (auto simp: canFire_def handleShooting_def)
  next
    case False
    let ?p = "player\<lparr>weaponCooldown := 0.2, energy := energy player - 10\<rparr>"
    let ?s' = "handleShooting rnd dateNow s"
    have lp: "localPlayerId ?s' = localPlayerId s"
      using Some False by (simp add: handleShooting_def Let_def)
    have gp: "getPlayer (localPlayerId s) ?s' = Some ?p"
      using Some False by (simp add: handleShooting_def Let_def getPlayer_putPlayer)
    have again: "handleShooting rnd dateNow' ?s' = ?s'"
      by (subst handleShooting_def[of rnd dateNow' ?s']) (simp add: lp gp)
    show ?thesis
      using Some False gp again
      by (simp add: canFire_def handleShooting_def Let_def speed400)
  qed
qed

theorem handleShooting_gate_witness:
  "canFire hostOnly \<and>
   length (projectiles (handleShooting zeroDraws 0 hostOnly)) = 1 \<and>
   \<not> canFire (handleShooting zeroDraws 0 hostOnly) \<and>
   handleShooting zeroDraws 1 (handleShooting zeroDraws 0 hostOnly) = handleShooting zeroDraws 0 hostOnly \<and>
   \<not> canFire (initialFields 800 600) \<and>
   handleShooting zeroDraws 0 (initialFields 800 600) = initialFields 800 600"
  using handleShooting_gate[of hostOnly zeroDraws 0 1]
    handleShooting_gate[of "initialFields 800 600" zeroDraws 0 1]
  by (auto simp: canFire_def hostOnly_def initializeAsHost_def createPlayer_def initialFields_def getPlayer_def)

text \<open>
  C5. The claim is that the collision pass considers every pair once, removes a consumed
  projectile before any further check against it, and neither skips nor wrongly removes
  another projectile. The pass removes with \<^verbatim>\<open>splice\<close> inside \<^verbatim>\<open>forEach\<close>, and the two runs
  below show what that does. In \<open>twoShots\<close> both projectiles lie on player \<open>''a''\<close>: the first
  is consumed, the second is skipped and stays, and the shield drops by one hit only. In
  \<open>twoRocks\<close> the first projectile lies in two asteroids and is checked against the second
  after it was removed by the first; the second projectile, 300 units away from both, is
  removed by that second hit.
\<close>

theorem splice_while_iterating:
  "projectiles twoShots = [shot 1 ''b'' (vec 100 300) 25, shot 2 ''b'' (vec 100 300) 25] \<and>
   playerField position ''a'' twoShots = Some (vec 100 300) \<and>
   playerField shield ''a'' twoShots = Some 100 \<and>
   projectiles (checkCollisions zeroDraws twoShots) = [shot 2 ''b'' (vec 100 300) 25] \<and>
   playerField shield ''a'' (checkCollisions zeroDraws twoShots) = Some 75 \<and>
   playerField health ''a'' (checkCollisions zeroDraws twoShots) = Some 100 \<and>
   projectiles twoRocks = [shot 1 ''a'' (vec 400 400) 25, shot 2 ''a'' (vec 700 500) 25] \<and>
   asteroids twoRocks = [rock 0 (vec 400 400) (vec 1 0) 20, rock 1 (vec 400 400) (vec 1 0) 20] \<and>
   \<not> getDistance (vec 700 500) (vec 400 400) < 20 \<and>
   projectiles (checkCollisions zeroDraws twoRocks) = []"
  using twoShots_result twoRocks_result
  by (simp add: playerField_def twoShots_players arena_a getDistance_less)

text \<open>
  C6. The claim is that no cooldown is below 0 after the cooldown update. The update
  subtracts the elapsed time from a cooldown above 0 and has no clamp: the cooldown of 0.2
  that a shot sets is 0.1 after a tick of 0.1 seconds and - 0.1 after a further tick of 0.2
  seconds. What holds: in a tick where the local
  player exists and the elapsed time is not negative, a cooldown above 0 decreases by exactly
  the elapsed time, a cooldown of 0 or below is unchanged, and a cooldown that was not
  negative ends no lower than minus the elapsed time.
\<close>

theorem cooldowns_not_clamped:
  fixes s :: GameEngine
  assumes "getPlayer (localPlayerId s) s = Some localPlayer"
    and "getPlayer k (handlePlayerInput rnd dateNow (localPlayerId s) deltaTime s) = Some p"
    and "0 \<le> deltaTime"
  shows "\<exists>p'. getPlayer k (updatePlayers rnd dateNow deltaTime s) = Some p' \<and>
           weaponCooldown p' =
             (if 0 < weaponCooldown p then weaponCooldown p - deltaTime else weaponCooldown p) \<and>
           boostCooldown p' =
             (if 0 < boostCooldown p then boostCooldown p - deltaTime else boostCooldown p) \<and>
           (0 \<le> weaponCooldown p \<longrightarrow> - deltaTime \<le> weaponCooldown p') \<and>
           (0 \<le> boostCooldown p \<longrightarrow> - deltaTime \<le> boostCooldown p')"
  using assms by (simp add: getPlayer_updatePlayers updatePlayer_fields)

theorem cooldowns_not_clamped_witness:
  "\<exists>p'. getPlayer ''a'' (updatePlayers zeroDraws 0 (3 / 10) (handleShooting zeroDraws 0 hostOnly)) = Some p' \<and>
      weaponCooldown p' = - 1 / 10 \<and> boostCooldown p' = 0"
  using cooldowns_not_clamped[where s = "handleShooting zeroDraws 0 hostOnly" and k = "''a''"
      and rnd = zeroDraws and dateNow = 0 and deltaTime = "3 / 10"
      and localPlayer = "(the (getPlayer ''a'' hostOnly))\<lparr>weaponCooldown := 0.2, energy := 90\<rparr>"
      and p = "(the (getPlayer ''a'' hostOnly))\<lparr>weaponCooldown := 0.2, energy := 90,
                 rotation := atan2 (-300) (-100)\<rparr>"]
  by (simp add: fired_a fired_input hostOnly_a, blast)

theorem cooldown_negative_counterexample:
  "playerField weaponCooldown ''a''
     (updatePlayers zeroDraws 0 (1 / 10) (handleShooting zeroDraws 0 hostOnly)) = Some (1 / 10) \<and>
   playerField weaponCooldown ''a''
     (updatePlayers zeroDraws 0 (2 / 10)
        (updatePlayers zeroDraws 0 (1 / 10) (handleShooting zeroDraws 0 hostOnly))) = Some (- 1 / 10)"
proof -
  let ?s0 = "handleShooting zeroDraws 0 hostOnly"
  let ?s1 = "updatePlayers zeroDraws 0 (1 / 10) ?s0"
  have g0: "getPlayer (localPlayerId ?s0) ?s0 =
              Some ((the (getPlayer ''a'' hostOnly))\<lparr>weaponCooldown := 0.2, energy := 90\<rparr>)"
    by (simp add: fired_a)
  have g1: "playerField weaponCooldown ''a'' ?s1 = Some (1 / 10)"
    using idle_tick[OF g0, of zeroDraws 0 "1 / 10"]
    by (simp add: playerField_def updatePlayer_fields hostOnly_a)
  then obtain p1 where p1: "getPlayer (localPlayerId ?s1) ?s1 = Some p1" "weaponCooldown p1 = 1 / 10"
    by (auto simp: playerField_def)
  have "playerField weaponCooldown ''a'' (updatePlayers zeroDraws 0 (2 / 10) ?s1) = Some (- 1 / 10)"
    using idle_tick[OF p1(1), of zeroDraws 0 "2 / 10"] p1(2)
    by (simp add: playerField_def updatePlayer_fields)
  then show ?thesis using g1 by simp
qed


text \<open>
  C7. The claim is that the boost adds 10 units of velocity along the heading, whatever the
  elapsed time. The impulse is scaled by the elapsed time: with a heading of 0 and a tick
  of half a second it is 5. What holds, with the mouse button up: let \<open>q\<close> be the player
  once the movement keys of the tick are handled, which is the player itself when none is
  held. When the space key is held, the energy is above 20 and the boost cooldown at most 0,
  the boost takes 20 energy, sets the cooldown to 1 and adds 10 times the elapsed time along
  the heading of \<open>q\<close>; otherwise the boost changes nothing. In both cases the heading then
  turns to face the mouse.
\<close>

theorem boost_scaled_by_deltaTime:
  fixes s :: GameEngine
  assumes "getPlayer k s = Some player"
    and "getPlayer k (inputRotate k deltaTime (inputBackward k deltaTime (inputForward rnd k deltaTime s)))
           = Some q"
    and "\<not> mouse_pressed s"
    and "aim = atan2 (mouse_y s - vec_y (position player)) (mouse_x s - vec_x (position player))"
  shows "getPlayer k (handlePlayerInput rnd dateNow k deltaTime s) =
     Some (if ''Space'' \<in> keys s \<and> energy player > 20 \<and> boostCooldown player \<le> 0
           then q\<lparr>velocity :=
                     vec (vec_x (velocity q) + cos (rotation q) * 10 * deltaTime)
                         (vec_y (velocity q) + sin (rotation q) * 10 * deltaTime),
                   energy := energy player - 20,
                   boostCooldown := 1,
                   rotation := aim\<rparr>
           else q\<lparr>rotation := aim\<rparr>) \<and>
     (''KeyW'' \<notin> keys s \<and> ''KeyS'' \<notin> keys s \<and> ''KeyA'' \<notin> keys s \<and> ''KeyD'' \<notin> keys s
        \<longrightarrow> q = player)"
proof -
  let ?s4 = "inputRotate k deltaTime (inputBackward k deltaTime (inputForward rnd k deltaTime s))"
  have k: "energy q = energy player" "boostCooldown q = boostCooldown player" "position q = position player"
    using movement_keeps[OF assms(1), of deltaTime rnd] assms(2) by auto
  have b: "inputShoot rnd dateNow (inputBoost rnd k deltaTime ?s4) = inputBoost rnd k deltaTime ?s4"
    using assms(3) by (simp add: inputShoot_def)
  have idle: "''KeyW'' \<notin> keys s \<and> ''KeyS'' \<notin> keys s \<and> ''KeyA'' \<notin> keys s \<and> ''KeyD'' \<notin> keys s
        \<longrightarrow> q = player"
    using assms(1,2) by (auto simp: movement_idle)
  have "getPlayer k (handlePlayerInput rnd dateNow k deltaTime s) =
     Some (if ''Space'' \<in> keys s \<and> energy player > 20 \<and> boostCooldown player \<le> 0
           then q\<lparr>velocity :=
                     vec (vec_x (velocity q) + cos (rotation q) * 10 * deltaTime)
                         (vec_y (velocity q) + sin (rotation q) * 10 * deltaTime),
                   energy := energy player - 20,
                   boostCooldown := 1,
                   rotation := aim\<rparr>
           else q\<lparr>rotation := aim\<rparr>)"
    unfolding handlePlayerInput_def b
    using assms(4) k getPlayer_inputBoost[OF assms(2), of rnd deltaTime]
    by (simp add: inputAim_def getPlayer_modifyPlayer Let_def)
  then show ?thesis using idle by simp
qed

theorem boost_scaled_by_deltaTime_witness:
  "playerField velocity ''a'' (handlePlayerInput zeroDraws 0 ''a'' (1 / 2) (hostOnly\<lparr>keys := {''Space''}\<rparr>))
     = Some (vec 5 0) \<and>
   playerField energy ''a'' (handlePlayerInput zeroDraws 0 ''a'' (1 / 2) (hostOnly\<lparr>keys := {''Space''}\<rparr>))
     = Some 80 \<and>
   playerField boostCooldown ''a'' (handlePlayerInput zeroDraws 0 ''a'' (1 / 2) (hostOnly\<lparr>keys := {''Space''}\<rparr>))
     = Some 1 \<and>
   playerField velocity ''a'' (handlePlayerInput zeroDraws 0 ''a'' (1 / 2) hostOnly) = Some (vec 0 0)"
  using boost_scaled_by_deltaTime[where k = "''a''" and s = "hostOnly\<lparr>keys := {''Space''}\<rparr>"
      and player = "the (getPlayer ''a'' hostOnly)" and q = "the (getPlayer ''a'' hostOnly)"
      and rnd = zeroDraws and dateNow = 0 and deltaTime = "1 / 2"]
    boost_scaled_by_deltaTime[where k = "''a''" and s = hostOnly
      and player = "the (getPlayer ''a'' hostOnly)" and q = "the (getPlayer ''a'' hostOnly)"
      and rnd = zeroDraws and dateNow = 0 and deltaTime = "1 / 2"]
  by (simp add: hostOnly_a playerField_def movement_idle)


theorem boost_impulse_counterexample:
  "''Space'' \<in> keys (hostOnly\<lparr>keys := {''Space''}\<rparr>) \<and>
   playerField energy ''a'' (hostOnly\<lparr>keys := {''Space''}\<rparr>) = Some 100 \<and>
   playerField boostCooldown ''a'' (hostOnly\<lparr>keys := {''Space''}\<rparr>) = Some 0 \<and>
   playerField rotation ''a'' (hostOnly\<lparr>keys := {''Space''}\<rparr>) = Some 0 \<and>
   playerField velocity ''a'' (hostOnly\<lparr>keys := {''Space''}\<rparr>) = Some (vec 0 0) \<and>
   playerField velocity ''a'' (handlePlayerInput zeroDraws 0 ''a'' (1 / 2) (hostOnly\<lparr>keys := {''Space''}\<rparr>))
     \<noteq> Some (vec (0 + cos 0 * 10) (0 + sin 0 * 10))"
  using handlePlayerInput_boost[of "''a''" "hostOnly\<lparr>keys := {''Space''}\<rparr>" _ _ zeroDraws 0 "1 / 2"]
  by (simp add: hostOnly_a playerField_def)

text \<open>
  C8. The claim is that the velocity of an asteroid is multiplied by 0.98 in each tick, as
  that of a player is. No drag is applied to asteroids. What holds: a tick applies the
  asteroid update once to every asteroid; that update moves the asteroid by 60 times the
  elapsed time times its velocity, wraps it at the field boundary with a margin of
  its size, and leaves its velocity as it was. The player update moves the player by 60
  times the elapsed time times the velocity it had, wraps it at the field boundary, and
  then multiplies the velocity by 0.98. In the engine the constructor returns when every
  draw is 0, all asteroids have the velocity (- 1, - 1), before and after a tick.
\<close>

theorem asteroids_keep_velocity:
  "asteroids (update rnd now dateNow s) =
     map (updateAsteroid ((now - lastUpdate s) / 1000) (canvas_width s) (canvas_height s)) (asteroids s) \<and>
   velocity (updateAsteroid deltaTime w h asteroid) = velocity asteroid \<and>
   vec_x (position (updateAsteroid deltaTime w h asteroid)) =
     (let px = vec_x (position asteroid) + vec_x (velocity asteroid) * deltaTime * 60
      in if px < - sizeA asteroid then w + sizeA asteroid
         else if px > w + sizeA asteroid then - sizeA asteroid else px) \<and>
   vec_y (position (updateAsteroid deltaTime w h asteroid)) =
     (let py = vec_y (position asteroid) + vec_y (velocity asteroid) * deltaTime * 60
      in if py < - sizeA asteroid then h + sizeA asteroid
         else if py > h + sizeA asteroid then - sizeA asteroid else py) \<and>
   vec_x (position (updatePlayer deltaTime w h player)) =
     (let px = vec_x (position player) + vec_x (velocity player) * deltaTime * 60
      in if px < 0 then w else if px > w then 0 else px) \<and>
   vec_y (position (updatePlayer deltaTime w h player)) =
     (let py = vec_y (position player) + vec_y (velocity player) * deltaTime * 60
      in if py < 0 then h else if py > h then 0 else py) \<and>
   velocity (updatePlayer deltaTime w h player) =
     vec (vec_x (velocity player) * 0.98) (vec_y (velocity player) * 0.98)"
  by (simp only: asteroids_update velocity_updateAsteroid position_updateAsteroid
        position_updatePlayer updatePlayer_fields simp_thms)

theorem asteroids_keep_velocity_witness:
  "velocity (updateAsteroid (1 / 60) 800 600 (rock 0 (vec 400 400) (vec (1 / 2) (- 1)) 20)) = vec (1 / 2) (- 1) \<and>
   position (updateAsteroid (1 / 60) 800 600 (rock 0 (vec 400 400) (vec (1 / 2) (- 1)) 20)) = vec (801 / 2) 399 \<and>
   position (updateAsteroid (1 / 60) 800 600 (rock 1 (vec 820 (- 20)) (vec (1 / 2) (- 1)) 20)) = vec (- 20) 620 \<and>
   velocity (updatePlayer (1 / 60) 800 600 ((weakened 100 100 (the (getPlayer ''a'' hostOnly)))\<lparr>velocity := vec 2 (- 1)\<rparr>))
     = vec (49 / 25) (- 49 / 50) \<and>
   position (updatePlayer (1 / 60) 800 600 ((weakened 100 100 (the (getPlayer ''a'' hostOnly)))\<lparr>velocity := vec 2 (- 1)\<rparr>))
     = vec 102 299"
proof -
  have eq: "(p :: Vector2D) = vec (vec_x p) (vec_y p)" for p by simp
  note a = asteroids_keep_velocity[of zeroDraws 0 0 hostOnly "1 / 60" 800 600
      "rock 0 (vec 400 400) (vec (1 / 2) (- 1)) 20"
      "(weakened 100 100 (the (getPlayer ''a'' hostOnly)))\<lparr>velocity := vec 2 (- 1)\<rparr>"]
  note b = asteroids_keep_velocity[of zeroDraws 0 0 hostOnly "1 / 60" 800 600
      "rock 1 (vec 820 (- 20)) (vec (1 / 2) (- 1)) 20"
      "(weakened 100 100 (the (getPlayer ''a'' hostOnly)))\<lparr>velocity := vec 2 (- 1)\<rparr>"]
  show ?thesis
    apply (subst (2) eq, subst (3) eq, subst (5) eq)
    using a b by (simp add: rock_def hostOnly_a weakened_def Let_def)
qed

theorem asteroid_drag_counterexample:
  "constructor zeroDraws True 800 600 = Some constructed \<and>
   map velocity (asteroids constructed) = replicate 25 (vec (- 1) (- 1)) \<and>
   map velocity (asteroids (update zeroDraws 16 0 constructed))
     \<noteq> replicate 25 (vec (- 1 * 0.98) (- 1 * 0.98))"
  by (simp add: constructor_def constructed_def[symmetric] asteroids_update comp_def constructed_asteroids)


text \<open>
  C9. After \<^verbatim>\<open>resetGame\<close> the projectiles and particles are empty, the game time is 0 and
  the asteroids are those from before. The power-ups are not replaced: eight new ones are
  appended to those already there, so the first reset of a new engine leaves 16.
\<close>

theorem resetGame_accumulates_powerUps:
  "(case constructor rnd True w h of
      None \<Rightarrow> False
    | Some s \<Rightarrow> length (powerUps s) = 8 \<and> length (powerUps (resetGame rnd s)) = 16) \<and>
   length (powerUps (resetGame rnd s)) = length (powerUps s) + 8 \<and>
   projectiles (resetGame rnd s) = [] \<and>
   particles (resetGame rnd s) = [] \<and>
   gameTime (resetGame rnd s) = 0 \<and>
   asteroids (resetGame rnd s) = asteroids s"
  by (simp add: constructor_def resetGame_def initialFields_def)

text \<open>
  C10. The claim is that every player regenerates shield and energy in every tick. The
  player update returns at once when the local player is not in the store: then no player
  regenerates, as the tick of \<open>botOnly\<close> shows. What holds: when the local player is in the
  store, the shield of every player becomes the lesser of its maximum and itself plus 10
  times the elapsed time when it is below the maximum, and is unchanged otherwise; the same
  holds for the energy with 20, counted from the energy that input handling leaves, which
  for every player but the local one is the energy before the tick.
\<close>

theorem regeneration_needs_local_player:
  fixes s :: GameEngine
  assumes "getPlayer k s = Some p"
    and "s' = updatePlayers rnd dateNow deltaTime s"
  shows "(getPlayer (localPlayerId s) s = None \<longrightarrow> s' = s) \<and>
         (getPlayer (localPlayerId s) s \<noteq> None \<longrightarrow>
            playerField shield k s' =
              Some (if shield p < maxShield p then min (maxShield p) (shield p + 10 * deltaTime)
                    else shield p) \<and>
            (k \<noteq> localPlayerId s \<longrightarrow>
               playerField energy k s' =
                 Some (if energy p < maxEnergy p then min (maxEnergy p) (energy p + 20 * deltaTime)
                       else energy p)) \<and>
            (\<exists>e. playerField energy k (handlePlayerInput rnd dateNow (localPlayerId s) deltaTime s) = Some e \<and>
                 playerField energy k s' =
                   Some (if e < maxEnergy p then min (maxEnergy p) (e + 20 * deltaTime) else e)))"
proof (cases "getPlayer (localPlayerId s) s")
  case None
  then show ?thesis using assms by (simp add: updatePlayers_def)
next
  case (Some lp)
  let ?s1 = "handlePlayerInput rnd dateNow (localPlayerId s) deltaTime s"
  have "playerField vitals k ?s1 = playerField vitals k s" by simp
  also have "\<dots> = Some (vitals p)" using assms(1) by (simp add: playerField_def)
  finally obtain p1 where p1: "getPlayer k ?s1 = Some p1" and v: "vitals p1 = vitals p"
    by (auto simp: playerField_def)
  have g: "getPlayer k s' = Some (updatePlayer deltaTime (canvas_width s) (canvas_height s) p1)"
    using Some p1 assms(2) by (simp add: getPlayer_updatePlayers)
  have sh: "shield p1 = shield p" "maxShield p1 = maxShield p" "maxEnergy p1 = maxEnergy p"
    using v by (simp_all add: vitals_def)
  have oth: "k \<noteq> localPlayerId s \<Longrightarrow> p1 = p"
    using p1 assms(1) others_handlePlayerInput[of k s rnd dateNow deltaTime] by simp
  show ?thesis
    using Some g sh oth p1 by (auto simp: playerField_def updatePlayer_fields)
qed

theorem regeneration_needs_local_player_witness:
  "playerField shield ''b'' (updatePlayers zeroDraws 0 1 (modifyPlayer ''b'' (weakened 50 100) arena)) = Some 60 \<and>
   playerField energy ''b'' (updatePlayers zeroDraws 0 1 (modifyPlayer ''b'' (weakened 50 100) arena)) = Some 100 \<and>
   updatePlayers zeroDraws 0 1 botOnly = botOnly"
  using regeneration_needs_local_player[where k = "''b''" and s = "modifyPlayer ''b'' (weakened 50 100) arena"
      and rnd = zeroDraws and dateNow = 0 and deltaTime = 1
      and p = "weakened 50 100 (the (getPlayer ''b'' arena))"]
    regeneration_needs_local_player[where k = "''b''" and s = botOnly
      and rnd = zeroDraws and dateNow = 0 and deltaTime = 1 and p = "the (getPlayer ''b'' botOnly)"]
  by (simp add: getPlayer_modifyPlayer arena_a arena_b weakened_def botOnly_b botOnly_local arena_local)

theorem regeneration_counterexample:
  "playerField shield ''b'' botOnly = Some 50 \<and>
   playerField maxShield ''b'' botOnly = Some 100 \<and>
   playerField shield ''b'' (update zeroDraws 1000 0 botOnly) = Some 50 \<and>
   playerField shield ''b'' (update zeroDraws 1000 0 botOnly) \<noteq> Some (min 100 (50 + 10 * 1))"
proof -
  have a: "updatePlayers zeroDraws 0 1 (botOnly\<lparr>lastUpdate := 1000, gameTime := 1\<rparr>)
           = botOnly\<lparr>lastUpdate := 1000, gameTime := 1\<rparr>"
    by (simp add: updatePlayers_def botOnly_local)
  have b: "checkCollisions zeroDraws (botOnly\<lparr>lastUpdate := 1000, gameTime := 1\<rparr>)
           = botOnly\<lparr>lastUpdate := 1000, gameTime := 1\<rparr>"
    by (simp add: checkCollisions_def playerCollisions_def)
  have "update zeroDraws 1000 0 botOnly = botOnly\<lparr>lastUpdate := 1000, gameTime := 1\<rparr>"
    by (simp add: update_def Let_def a empty_updates b)
  then show ?thesis by (simp add: playerField_def botOnly_b)
qed


end
